theory Spec2Isabelle
  imports Main
begin

section \<open>The user API handlers of jupyterhub/apihandlers/users.py\<close>

text \<open>
  The handlers are Tornado request handlers.  A request is run against the hub's
  database session and its collaborators (authenticator, spawner, cookie issuer).
  The model passes the mutable part explicitly (\<open>hub\<close>: the rows of the users table
  as the session sees them, and the sequence of calls made on the collaborators) and
  takes everything a request reads from outside as a field of \<open>handler\<close>.
  A raised \<open>web.HTTPError\<close> is the left summand of the result; the hub state is
  returned in both cases, because a handler may raise after it has mutated.
\<close>

subsection \<open>Request bodies\<close>

text \<open>
  What \<open>json.loads\<close> produces.  A finite float is mantissa and binary exponent; it
  is only ever tested for truth and for its type.  A dict is the list of its items in
  iteration order.
\<close>

datatype json =
    JNull
  | JBool bool
  | JInt int
  | JFloat int int
  | JStr string
  | JList "json list"
  | JDict "(string \<times> json) list"

text \<open>Python's truth value of a decoded body, as \<open>if data:\<close> tests it.\<close>

fun truthy :: "json \<Rightarrow> bool" where
  "truthy JNull = False"
| "truthy (JBool b) = b"
| "truthy (JInt i) = (i \<noteq> 0)"
| "truthy (JFloat m e) = (m \<noteq> 0)"
| "truthy (JStr s) = (s \<noteq> [])"
| "truthy (JList xs) = (xs \<noteq> [])"
| "truthy (JDict kvs) = (kvs \<noteq> [])"

datatype pytype = PyStr | PyBool

fun isinstance :: "json \<Rightarrow> pytype \<Rightarrow> bool" where
  "isinstance (JStr s) PyStr = True"
| "isinstance (JBool b) PyBool = True"
| "isinstance v t = False"

subsection \<open>Errors and replies\<close>

text \<open>
  One constructor of \<open>message\<close> per message text of the source; \<open>NoMessage\<close> is
  \<open>web.HTTPError(status)\<close> without a text.  \<open>Uncaught\<close> is a Python exception that
  is not an \<open>HTTPError\<close> (an attribute read on \<open>None\<close>, a missing key).
\<close>

datatype message =
    NoMessage
  | InvalidJSONData json
  | InvalidJSONKeys json
  | MustBe string pytype
  | AlreadyExists string
  | FailedToCreate string
  | CannotDeleteYourself
  | ProcessOfStopping string
  | AlreadyRunning string
  | NotRunning string
  | AdminAccessDisabled

datatype error = HTTPError nat message | Uncaught string

subsection \<open>Validation of a user model\<close>

definition model_types :: "(string \<times> pytype) list" where
  "model_types = [(''name'', PyStr), (''admin'', PyBool)]"

text \<open>The loop of \<open>_check_user_model\<close> over \<open>model.items()\<close>.\<close>

fun check_items :: "(string \<times> json) list \<Rightarrow> error + unit" where
  "check_items [] = Inr ()"
| "check_items ((key, v) # kvs) =
     (case map_of model_types key of
        None \<Rightarrow> Inl (Uncaught ''KeyError'')
      | Some t \<Rightarrow>
          if \<not> isinstance v t then Inl (HTTPError 400 (MustBe key t))
          else check_items kvs)"

definition check_user_model :: "json \<Rightarrow> error + unit" where
  "check_user_model model =
     (case model of
        JDict kvs \<Rightarrow>
          if \<not> set (map fst kvs) \<subseteq> set (map fst model_types)
          then Inl (HTTPError 400 (InvalidJSONKeys model))
          else check_items kvs
      | _ \<Rightarrow> Inl (HTTPError 400 (InvalidJSONData model)))"

subsection \<open>Users\<close>

text \<open>
  The spawner handle of a user; \<open>poll\<close> is what \<open>spawner.poll()\<close> answers when it
  is asked: \<open>None\<close> while the process is alive, its exit status once it has exited.
\<close>

record spawner =
  poll :: "int option"

text \<open>
  The attributes of \<open>orm.User\<close> that the handlers read or write.  \<open>running\<close> is a
  property of the ORM class, which is not part of this file: it is kept as the
  attribute the handlers observe.
\<close>

record user =
  name :: string
  admin :: bool
  server_base_url :: string
  running :: bool
  spawner :: "spawner option"
  spawn_pending :: bool
  stop_pending :: bool
  last_activity :: string

record user_model =
  model_name :: string
  model_admin :: bool
  model_server :: "string option"
  model_pending :: "string option"
  model_last_activity :: string

definition user_model :: "user \<Rightarrow> user_model" where
  "user_model u =
     \<lparr>model_name = name u,
      model_admin = admin u,
      model_server = (if running u then Some (server_base_url u) else None),
      model_pending =
        (if spawn_pending u then Some ''spawn''
         else if stop_pending u then Some ''stop'' else None),
      model_last_activity = last_activity u\<rparr>"

text \<open>\<open>setattr(user, key, value)\<close> for the two keys that pass validation.\<close>

definition setattr_user :: "user \<Rightarrow> string \<Rightarrow> json \<Rightarrow> user" where
  "setattr_user u key v =
     (if key = ''name'' then (case v of JStr x \<Rightarrow> u\<lparr>name := x\<rparr> | _ \<Rightarrow> u)
      else if key = ''admin'' then (case v of JBool b \<Rightarrow> u\<lparr>admin := b\<rparr> | _ \<Rightarrow> u)
      else u)"

subsection \<open>The hub state and what a handler reads from outside\<close>

datatype event =
    DbAdd string
  | DbDelete string
  | DbCommit
  | AddUser string
  | DeleteUser string
  | Poll string
  | SpawnSingleUser string
  | StopSingleUser string
  | SetServerCookie string
  | LogWarn string string
  | LogError string

record hub =
  db :: "user list"
  calls :: "event list"

text \<open>
  What a collaborator raises, by the name of its class: an instance of \<open>Exception\<close>,
  which \<open>except Exception\<close> catches, or of \<open>BaseException\<close> only
  (\<open>KeyboardInterrupt\<close>, \<open>SystemExit\<close>, \<open>GeneratorExit\<close>), which it does not.
\<close>

datatype exn = Exception string | BaseException string

fun class_name :: "exn \<Rightarrow> string" where
  "class_name (Exception c) = c"
| "class_name (BaseException c) = c"

text \<open>
  \<open>current_user\<close> is \<open>get_current_user()\<close>, \<open>json_body\<close> is \<open>get_json_body()\<close>
  (\<open>JNull\<close> for an empty body), \<open>admin_access\<close> is
  \<open>settings.get('admin_access', False)\<close>.  \<open>add_user\<close> and \<open>delete_user\<close> say
  what \<open>authenticator.add_user\<close> and \<open>authenticator.delete_user\<close> raise for a
  user, \<open>None\<close> when the call returns.  \<open>spawn_single_user\<close> and
  \<open>stop_single_user\<close> are the methods of the base handler, which is not part of this
  file: they are taken as what they leave of the user object they are given.
  \<open>utcnow\<close> is the time a new row is stamped with.
\<close>

record handler =
  current_user :: "user option"
  json_body :: json
  admin_access :: bool
  add_user :: "user \<Rightarrow> exn option"
  delete_user :: "user \<Rightarrow> exn option"
  spawn_single_user :: "user \<Rightarrow> user"
  stop_single_user :: "user \<Rightarrow> user"
  utcnow :: string

datatype body = Nothing | Model user_model | Models "user_model list"

record reply =
  status :: nat
  written :: body

type_synonym result = "(error + reply) \<times> hub"
type_synonym action = "handler \<Rightarrow> string \<Rightarrow> hub \<Rightarrow> result"

definition log_call :: "event \<Rightarrow> hub \<Rightarrow> hub" where
  "log_call e s = s\<lparr>calls := calls s @ [e]\<rparr>"

definition db_add :: "user \<Rightarrow> hub \<Rightarrow> hub" where
  "db_add u s = log_call (DbAdd (name u)) (s\<lparr>db := db s @ [u]\<rparr>)"

definition db_delete :: "nat \<Rightarrow> hub \<Rightarrow> hub" where
  "db_delete i s =
     log_call (DbDelete (name (db s ! i))) (s\<lparr>db := take i (db s) @ drop (Suc i) (db s)\<rparr>)"

definition db_commit :: "hub \<Rightarrow> hub" where
  "db_commit s = log_call DbCommit s"

text \<open>Writing an attribute of the user object that \<open>i\<close> refers to.\<close>

definition put_user :: "nat \<Rightarrow> user \<Rightarrow> hub \<Rightarrow> hub" where
  "put_user i u s = s\<lparr>db := (db s)[i := u]\<rparr>"

fun index_of :: "string \<Rightarrow> user list \<Rightarrow> nat option" where
  "index_of n [] = None"
| "index_of n (u # us) = (if name u = n then Some 0 else map_option Suc (index_of n us))"

text \<open>
  Modelled from the spec: \<open>find_user\<close> is a method of the base handler (base.py), which
  is missing; section 6 gives the store \<open>findByName(name) -> UserRecord?\<close>.  The answer is
  the position of the row, which stands for the reference to the ORM object.
\<close>

definition find_user :: "string \<Rightarrow> hub \<Rightarrow> nat option" where
  "find_user n s = index_of n (db s)"

definition new_user :: "handler \<Rightarrow> string \<Rightarrow> user" where
  "new_user h n =
     \<lparr>name = n, admin = False, server_base_url = [], running = False, spawner = None,
      spawn_pending = False, stop_pending = False, last_activity = utcnow h\<rparr>"

text \<open>
  Modelled from the spec: \<open>user_from_username\<close> is a method of the base handler
  (base.py), which is missing.  Section 4.3 has CreateUser make a new UserRecord that a
  failed provisioning deletes again, a new account starts in NoServer without privilege
  (section 8, scenario A), and section 6 has every store mutation followed by a commit.
\<close>

definition user_from_username :: "handler \<Rightarrow> string \<Rightarrow> hub \<Rightarrow> nat \<times> hub" where
  "user_from_username h n s =
     (case find_user n s of
        Some i \<Rightarrow> (i, s)
      | None \<Rightarrow> (length (db s), db_commit (db_add (new_user h n) s)))"

subsection \<open>The authorization decorators\<close>

text \<open>
  Modelled from the spec: \<open>admin_only\<close> is defined in utils.py, which is missing;
  section 4.1 allows AdminOnly iff the caller is an admin and denies Forbidden
  otherwise, an absent caller included.
\<close>

definition admin_only :: "action \<Rightarrow> action" where
  "admin_only f h n s =
     (case current_user h of
        None \<Rightarrow> (Inl (HTTPError 403 NoMessage), s)
      | Some current \<Rightarrow>
          if \<not> admin current then (Inl (HTTPError 403 NoMessage), s)
          else f h n s)"

definition admin_or_self :: "action \<Rightarrow> action" where
  "admin_or_self f h n s =
     (case current_user h of
        None \<Rightarrow> (Inl (HTTPError 403 NoMessage), s)
      | Some current \<Rightarrow>
          if \<not> (name current = n \<or> admin current) then (Inl (HTTPError 403 NoMessage), s)
          else if find_user n s = None then (Inl (HTTPError 404 NoMessage), s)
          else f h n s)"

subsection \<open>UserListAPIHandler\<close>

definition UserListAPIHandler_get :: "handler \<Rightarrow> hub \<Rightarrow> result" where
  "UserListAPIHandler_get h s =
     admin_only (\<lambda>h n s. (Inr \<lparr>status = 200, written = Models (map user_model (db s))\<rparr>, s))
       h [] s"

subsection \<open>UserAPIHandler\<close>

definition get_undecorated :: action where
  "get_undecorated h n s =
     (case find_user n s of
        None \<Rightarrow> (Inl (Uncaught ''AttributeError''), s)
      | Some i \<Rightarrow> (Inr \<lparr>status = 200, written = Model (user_model (db s ! i))\<rparr>, s))"

definition UserAPIHandler_get :: action where
  "UserAPIHandler_get = admin_or_self get_undecorated"

text \<open>
  Lines 85 to 89: \<open>if data:\<close> validates, then \<open>if 'admin' in data:\<close> assigns and
  commits.  The position \<open>i\<close> is the user that \<open>user_from_username\<close> returned.
\<close>

definition post_fields :: "json \<Rightarrow> nat \<Rightarrow> hub \<Rightarrow> error + hub" where
  "post_fields data i s =
     (if truthy data then
        (case check_user_model data of
           Inl e \<Rightarrow> Inl e
         | Inr _ \<Rightarrow>
            (case data of
               JDict kvs \<Rightarrow>
                 (case map_of kvs ''admin'' of
                    Some v \<Rightarrow> Inr (db_commit (put_user i (setattr_user (db s ! i) ''admin'' v) s))
                  | None \<Rightarrow> Inr s)
             | _ \<Rightarrow> Inl (Uncaught ''TypeError'')))
      else Inr s)"

text \<open>
  Lines 91 to 100: provisioning, its compensating delete, and the reply.  The handler of
  line 93 is \<open>except Exception\<close>: what is not an \<open>Exception\<close> escapes from line 92.
\<close>

definition post_provision :: "handler \<Rightarrow> string \<Rightarrow> nat \<Rightarrow> hub \<Rightarrow> result" where
  "post_provision h n i s =
     (let user = db s ! i; s1 = log_call (AddUser (name user)) s in
      case add_user h user of
        Some (Exception c) \<Rightarrow>
          (Inl (HTTPError 400 (FailedToCreate n)),
           db_commit (db_delete i (log_call (LogError n) s1)))
      | Some (BaseException c) \<Rightarrow> (Inl (Uncaught c), s1)
      | None \<Rightarrow> (Inr \<lparr>status = 201, written = Model (user_model user)\<rparr>, s1))"

definition post_undecorated :: action where
  "post_undecorated h n s =
     (let data = json_body h in
      case find_user n s of
        Some j \<Rightarrow> (Inl (HTTPError 400 (AlreadyExists n)), s)
      | None \<Rightarrow>
          (case user_from_username h n s of
             (i, s1) \<Rightarrow>
               (case post_fields data i s1 of
                  Inl e \<Rightarrow> (Inl e, s1)
                | Inr s2 \<Rightarrow> post_provision h n i s2)))"

definition UserAPIHandler_post :: action where
  "UserAPIHandler_post = admin_only post_undecorated"

text \<open>
  Lines 117 to 123 of \<open>delete\<close>.  Nothing catches what
  \<open>authenticator.delete_user\<close> raises: it escapes before the row is deleted.
\<close>

definition delete_finish :: "handler \<Rightarrow> nat \<Rightarrow> hub \<Rightarrow> result" where
  "delete_finish h i s =
     (let user = db s ! i; s1 = log_call (DeleteUser (name user)) s in
      case delete_user h user of
        Some x \<Rightarrow> (Inl (Uncaught (class_name x)), s1)
      | None \<Rightarrow> (Inr \<lparr>status = 204, written = Nothing\<rparr>, db_commit (db_delete i s1)))"

definition delete_undecorated :: action where
  "delete_undecorated h n s =
     (case find_user n s of
        None \<Rightarrow> (Inl (HTTPError 404 NoMessage), s)
      | Some i \<Rightarrow>
          let user = db s ! i in
          (case current_user h of
             None \<Rightarrow> (Inl (Uncaught ''AttributeError''), s)
           | Some current \<Rightarrow>
               if name user = name current then (Inl (HTTPError 400 CannotDeleteYourself), s)
               else if stop_pending user then (Inl (HTTPError 400 (ProcessOfStopping n)), s)
               else
                 (case spawner user of
                    Some sp \<Rightarrow>
                      let s1 = put_user i (stop_single_user h user)
                                 (log_call (StopSingleUser (name user)) s) in
                      if stop_pending (db s1 ! i)
                      then (Inl (HTTPError 400 (ProcessOfStopping n)), s1)
                      else delete_finish h i s1
                  | None \<Rightarrow> delete_finish h i s)))"

definition UserAPIHandler_delete :: action where
  "UserAPIHandler_delete = admin_only delete_undecorated"

definition patch_undecorated :: action where
  "patch_undecorated h n s =
     (case find_user n s of
        None \<Rightarrow> (Inl (HTTPError 404 NoMessage), s)
      | Some i \<Rightarrow>
          let data = json_body h in
          (case check_user_model data of
             Inl e \<Rightarrow> (Inl e, s)
           | Inr _ \<Rightarrow>
              (case data of
                 JDict kvs \<Rightarrow>
                   let s1 = db_commit
                              (put_user i
                                 (foldl (\<lambda>u (key, v). setattr_user u key v) (db s ! i) kvs) s)
                   in (Inr \<lparr>status = 200, written = Model (user_model (db s1 ! i))\<rparr>, s1)
               | _ \<Rightarrow> (Inl (Uncaught ''AttributeError''), s))))"

definition UserAPIHandler_patch :: action where
  "UserAPIHandler_patch = admin_only patch_undecorated"

subsection \<open>UserServerAPIHandler\<close>

text \<open>Lines 148 to 150 of \<open>post\<close>.\<close>

definition spawn_and_report :: "handler \<Rightarrow> nat \<Rightarrow> hub \<Rightarrow> result" where
  "spawn_and_report h i s =
     (let user = db s ! i;
          s1 = put_user i (spawn_single_user h user) (log_call (SpawnSingleUser (name user)) s)
      in (Inr \<lparr>status = (if spawn_pending (db s1 ! i) then 202 else 201), written = Nothing\<rparr>,
          s1))"

definition server_post_undecorated :: action where
  "server_post_undecorated h n s =
     (case find_user n s of
        None \<Rightarrow> (Inl (Uncaught ''AttributeError''), s)
      | Some i \<Rightarrow>
          let user = db s ! i in
          (case spawner user of
             Some sp \<Rightarrow>
               let s1 = log_call (Poll (name user)) s in
               if poll sp = None then (Inl (HTTPError 400 (AlreadyRunning n)), s1)
               else spawn_and_report h i s1
           | None \<Rightarrow> spawn_and_report h i s))"

definition UserServerAPIHandler_post :: action where
  "UserServerAPIHandler_post = admin_or_self server_post_undecorated"

definition server_delete_undecorated :: action where
  "server_delete_undecorated h n s =
     (case find_user n s of
        None \<Rightarrow> (Inl (Uncaught ''AttributeError''), s)
      | Some i \<Rightarrow>
          let user = db s ! i in
          if stop_pending user then (Inr \<lparr>status = 202, written = Nothing\<rparr>, s)
          else if \<not> running user then (Inl (HTTPError 400 (NotRunning n)), s)
          else
            (case spawner user of
               None \<Rightarrow> (Inl (Uncaught ''AttributeError''), s)
             | Some sp \<Rightarrow>
                 let s1 = log_call (Poll (name user)) s in
                 if poll sp \<noteq> None then (Inl (HTTPError 400 (NotRunning n)), s1)
                 else
                   let s2 = put_user i (stop_single_user h user)
                              (log_call (StopSingleUser (name user)) s1)
                   in (Inr \<lparr>status = (if stop_pending (db s2 ! i) then 202 else 204),
                            written = Nothing\<rparr>, s2)))"

definition UserServerAPIHandler_delete :: action where
  "UserServerAPIHandler_delete = admin_or_self server_delete_undecorated"

subsection \<open>UserAdminAccessAPIHandler\<close>

definition admin_access_post_undecorated :: action where
  "admin_access_post_undecorated h n s =
     (case current_user h of
        None \<Rightarrow> (Inl (Uncaught ''AttributeError''), s)
      | Some current \<Rightarrow>
          let s1 = log_call (LogWarn (name current) n) s in
          if \<not> admin_access h then (Inl (HTTPError 403 AdminAccessDisabled), s1)
          else
            (case find_user n s1 of
               None \<Rightarrow> (Inl (HTTPError 404 NoMessage), s1)
             | Some i \<Rightarrow>
                 let user = db s1 ! i in
                 if \<not> running user then (Inl (HTTPError 400 (NotRunning n)), s1)
                 else (Inr \<lparr>status = 200, written = Nothing\<rparr>,
                       log_call (SetServerCookie (name user)) s1)))"

definition UserAdminAccessAPIHandler_post :: action where
  "UserAdminAccessAPIHandler_post = admin_only admin_access_post_undecorated"

subsection \<open>Sample data\<close>

text \<open>A small hub and a request by its administrator, for the concrete instances below.\<close>

definition root_user :: user where
  "root_user =
     \<lparr>name = ''root'', admin = True, server_base_url = [], running = False, spawner = None,
      spawn_pending = False, stop_pending = False, last_activity = ''2015-01-01T00:00:00''\<rparr>"

definition alice :: user where
  "alice =
     \<lparr>name = ''alice'', admin = False, server_base_url = [], running = False, spawner = None,
      spawn_pending = False, stop_pending = False, last_activity = ''2015-01-02T00:00:00''\<rparr>"

definition bob :: user where
  "bob =
     \<lparr>name = ''bob'', admin = False, server_base_url = [], running = False, spawner = None,
      spawn_pending = False, stop_pending = False, last_activity = ''2015-01-03T00:00:00''\<rparr>"

definition sample_hub :: hub where
  "sample_hub = \<lparr>db = [root_user, alice, bob], calls = []\<rparr>"

definition sample_request :: handler where
  "sample_request =
     \<lparr>current_user = Some root_user,
      json_body = JNull,
      admin_access = False,
      add_user = (\<lambda>u. None),
      delete_user = (\<lambda>u. None),
      spawn_single_user = (\<lambda>u. u\<lparr>spawner := Some \<lparr>poll = None\<rparr>, spawn_pending := True\<rparr>),
      stop_single_user = (\<lambda>u. u\<lparr>stop_pending := True\<rparr>),
      utcnow = ''2015-06-01T12:00:00''\<rparr>"

section \<open>Basic facts\<close>

lemmas hub_defs = log_call_def db_add_def db_delete_def db_commit_def put_user_def find_user_def

lemmas sample_defs = root_user_def alice_def bob_def sample_hub_def sample_request_def

lemma index_of_SomeD:
  "index_of n us = Some i \<Longrightarrow> i < length us \<and> name (us ! i) = n"
proof (induction us arbitrary: i)
  case Nil
  then show ?case by simp
next
  case (Cons u us)
  then show ?case by (auto split: if_splits)
qed

lemma index_of_None_iff: "index_of n us = None \<longleftrightarrow> n \<notin> name ` set us"
  by (induction us) auto

lemma find_user_SomeD:
  "find_user n s = Some i \<Longrightarrow> i < length (db s) \<and> name (db s ! i) = n"
  unfolding find_user_def by (rule index_of_SomeD)

lemmas handler_defs = admin_only_def admin_or_self_def UserAPIHandler_get_def get_undecorated_def
  UserAPIHandler_post_def post_undecorated_def post_fields_def post_provision_def
  user_from_username_def new_user_def
  UserAPIHandler_delete_def delete_undecorated_def delete_finish_def
  UserAPIHandler_patch_def patch_undecorated_def
  UserServerAPIHandler_post_def server_post_undecorated_def spawn_and_report_def
  UserServerAPIHandler_delete_def server_delete_undecorated_def
  UserAdminAccessAPIHandler_post_def admin_access_post_undecorated_def
  UserListAPIHandler_get_def
  check_user_model_def model_types_def setattr_user_def user_model_def

subsection \<open>The two gates\<close>

lemma admin_or_self_no_caller:
  "current_user h = None \<Longrightarrow> admin_or_self m h n s = (Inl (HTTPError 403 NoMessage), s)"
  by (simp add: admin_or_self_def)

lemma admin_or_self_stranger:
  "current_user h = Some c \<Longrightarrow> name c \<noteq> n \<Longrightarrow> \<not> admin c \<Longrightarrow>
   admin_or_self m h n s = (Inl (HTTPError 403 NoMessage), s)"
  by (simp add: admin_or_self_def)

lemma admin_or_self_absent:
  "current_user h = Some c \<Longrightarrow> name c = n \<or> admin c \<Longrightarrow> find_user n s = None \<Longrightarrow>
   admin_or_self m h n s = (Inl (HTTPError 404 NoMessage), s)"
  by (auto simp: admin_or_self_def)

lemma admin_or_self_pass:
  "current_user h = Some c \<Longrightarrow> name c = n \<or> admin c \<Longrightarrow> find_user n s = Some i \<Longrightarrow>
   admin_or_self m h n s = m h n s"
  by (auto simp: admin_or_self_def)

lemma admin_only_pass:
  "current_user h = Some c \<Longrightarrow> admin c \<Longrightarrow> admin_only m h n s = m h n s"
  by (simp add: admin_only_def)

lemma admin_only_deny:
  "current_user h = None \<or> (\<exists>c. current_user h = Some c \<and> \<not> admin c) \<Longrightarrow>
   admin_only m h n s = (Inl (HTTPError 403 NoMessage), s)"
  by (auto simp: admin_only_def)

section \<open>The self-or-admin gate\<close>

text \<open>
  C1.  The three operations behind \<open>admin_or_self\<close> are GetUser, SpawnServer and
  StopServer.  For each of them: a request without an authenticated caller is refused
  with 403; a caller who is neither the target (same name) nor an admin is refused with
  403; an authorized caller whose target name resolves to no user is refused with 404, a
  status other than the 403 of the authorization failures; and in every remaining case
  the result is that of the undecorated method.  The refusals leave the hub as it was.
\<close>

theorem self_or_admin_gate:
  assumes "(op, m) \<in> {(UserAPIHandler_get, get_undecorated),
                        (UserServerAPIHandler_post, server_post_undecorated),
                        (UserServerAPIHandler_delete, server_delete_undecorated)}"
  shows "(current_user h = None \<longrightarrow> op h n s = (Inl (HTTPError 403 NoMessage), s)) \<and>
         (\<forall>c. current_user h = Some c \<and> name c \<noteq> n \<and> \<not> admin c \<longrightarrow>
              op h n s = (Inl (HTTPError 403 NoMessage), s)) \<and>
         (\<forall>c. current_user h = Some c \<and> (name c = n \<or> admin c) \<and> find_user n s = None \<longrightarrow>
              op h n s = (Inl (HTTPError 404 NoMessage), s)) \<and>
         (\<forall>c i. current_user h = Some c \<and> (name c = n \<or> admin c) \<and> find_user n s = Some i \<longrightarrow>
              op h n s = m h n s)"
proof -
  from assms have op: "op = admin_or_self m"
    by (auto simp: UserAPIHandler_get_def UserServerAPIHandler_post_def
        UserServerAPIHandler_delete_def)
  show ?thesis
    unfolding op
    using admin_or_self_no_caller [of h m n s] admin_or_self_stranger [of h _ n m s]
      admin_or_self_absent [of h _ n s m] admin_or_self_pass [of h _ n s _ m]
    by blast
qed

theorem self_or_admin_gate_witness:
  "UserAPIHandler_get (sample_request\<lparr>current_user := None\<rparr>) ''alice'' sample_hub
     = (Inl (HTTPError 403 NoMessage), sample_hub) \<and>
   UserServerAPIHandler_post (sample_request\<lparr>current_user := Some bob\<rparr>) ''alice'' sample_hub
     = (Inl (HTTPError 403 NoMessage), sample_hub) \<and>
   UserServerAPIHandler_delete sample_request ''carol'' sample_hub
     = (Inl (HTTPError 404 NoMessage), sample_hub) \<and>
   UserAPIHandler_get (sample_request\<lparr>current_user := Some alice\<rparr>) ''alice'' sample_hub
     = (Inr \<lparr>status = 200, written = Model (user_model alice)\<rparr>, sample_hub)"
proof -
  have a: "UserAPIHandler_get (sample_request\<lparr>current_user := None\<rparr>) ''alice'' sample_hub
     = (Inl (HTTPError 403 NoMessage), sample_hub)"
    using self_or_admin_gate [of UserAPIHandler_get get_undecorated
        "sample_request\<lparr>current_user := None\<rparr>" "''alice''" sample_hub]
    by simp
  have b: "UserServerAPIHandler_post (sample_request\<lparr>current_user := Some bob\<rparr>) ''alice'' sample_hub
     = (Inl (HTTPError 403 NoMessage), sample_hub)"
    using self_or_admin_gate [of UserServerAPIHandler_post server_post_undecorated
        "sample_request\<lparr>current_user := Some bob\<rparr>" "''alice''" sample_hub]
    by (simp add: sample_defs)
  have c: "UserServerAPIHandler_delete sample_request ''carol'' sample_hub
     = (Inl (HTTPError 404 NoMessage), sample_hub)"
    using self_or_admin_gate [of UserServerAPIHandler_delete server_delete_undecorated
        sample_request "''carol''" sample_hub]
    by (simp add: sample_defs find_user_def)
  have d: "UserAPIHandler_get (sample_request\<lparr>current_user := Some alice\<rparr>) ''alice'' sample_hub
     = get_undecorated (sample_request\<lparr>current_user := Some alice\<rparr>) ''alice'' sample_hub"
    using self_or_admin_gate [of UserAPIHandler_get get_undecorated
        "sample_request\<lparr>current_user := Some alice\<rparr>" "''alice''" sample_hub]
    by (simp add: sample_defs find_user_def)
  have e: "get_undecorated (sample_request\<lparr>current_user := Some alice\<rparr>) ''alice'' sample_hub
     = (Inr \<lparr>status = 200, written = Model (user_model alice)\<rparr>, sample_hub)"
    by (simp add: get_undecorated_def sample_defs find_user_def)
  from a b c d e show ?thesis by simp
qed

section \<open>Starting and stopping a server\<close>

lemma server_post_authorized:
  assumes "current_user h = Some c" "name c = n \<or> admin c" "find_user n s = Some i"
  shows "UserServerAPIHandler_post h n s = server_post_undecorated h n s"
  unfolding UserServerAPIHandler_post_def using assms by (rule admin_or_self_pass)

lemma server_delete_authorized:
  assumes "current_user h = Some c" "name c = n \<or> admin c" "find_user n s = Some i"
  shows "UserServerAPIHandler_delete h n s = server_delete_undecorated h n s"
  unfolding UserServerAPIHandler_delete_def using assms by (rule admin_or_self_pass)

lemma server_post_alive:
  assumes "find_user n s = Some i" "spawner (db s ! i) = Some sp" "poll sp = None"
  shows "server_post_undecorated h n s =
           (Inl (HTTPError 400 (AlreadyRunning n)), s\<lparr>calls := calls s @ [Poll n]\<rparr>)"
  using assms find_user_SomeD [OF assms(1)]
  by (simp add: server_post_undecorated_def log_call_def)

lemma server_post_exited:
  assumes "find_user n s = Some i" "spawner (db s ! i) = Some sp" "poll sp = Some x"
  shows "server_post_undecorated h n s =
           (Inr \<lparr>status = (if spawn_pending (spawn_single_user h (db s ! i)) then 202 else 201),
                 written = Nothing\<rparr>,
            s\<lparr>db := (db s)[i := spawn_single_user h (db s ! i)],
              calls := calls s @ [Poll n, SpawnSingleUser n]\<rparr>)"
  using assms find_user_SomeD [OF assms(1)]
  by (simp add: server_post_undecorated_def spawn_and_report_def log_call_def put_user_def)

lemma server_post_no_handle:
  assumes "find_user n s = Some i" "spawner (db s ! i) = None"
  shows "server_post_undecorated h n s =
           (Inr \<lparr>status = (if spawn_pending (spawn_single_user h (db s ! i)) then 202 else 201),
                 written = Nothing\<rparr>,
            s\<lparr>db := (db s)[i := spawn_single_user h (db s ! i)],
              calls := calls s @ [SpawnSingleUser n]\<rparr>)"
  using assms find_user_SomeD [OF assms(1)]
  by (simp add: server_post_undecorated_def spawn_and_report_def log_call_def put_user_def)



text \<open>
  C7, as the spec words it, fails: with a handle whose poll answers the exit status 0,
  which is neither null nor absent, the spawn is accepted (202); with a handle whose
  poll answers null the request is the one that fails with 400.
\<close>

theorem spawn_accepted_on_exit_status:
  "fst (UserServerAPIHandler_post (sample_request\<lparr>current_user := Some alice\<rparr>) ''alice''
          (sample_hub\<lparr>db := [root_user, alice\<lparr>spawner := Some \<lparr>poll = Some 0\<rparr>\<rparr>, bob]\<rparr>))
     = Inr \<lparr>status = 202, written = Nothing\<rparr> \<and>
   fst (UserServerAPIHandler_post (sample_request\<lparr>current_user := Some alice\<rparr>) ''alice''
          (sample_hub\<lparr>db := [root_user, alice\<lparr>spawner := Some \<lparr>poll = None\<rparr>\<rparr>, bob]\<rparr>))
     = Inl (HTTPError 400 (AlreadyRunning ''alice''))"
  by (simp add: handler_defs hub_defs sample_defs)

text \<open>
  C7, amended.  For an authorized caller and an existing user, SpawnServer is accepted
  exactly when the user has no spawner handle or the handle's poll answers an exit
  status (the process has exited); when the poll answers null (the process is alive) it
  fails with 400 "already running".
\<close>

theorem spawn_accepted_iff_no_live_process:
  assumes "current_user h = Some c" and "name c = n \<or> admin c" and "find_user n s = Some i"
  shows "((\<exists>r. fst (UserServerAPIHandler_post h n s) = Inr r) \<longleftrightarrow>
            (spawner (db s ! i) = None \<or>
             (\<exists>sp x. spawner (db s ! i) = Some sp \<and> poll sp = Some x))) \<and>
         ((\<exists>sp. spawner (db s ! i) = Some sp \<and> poll sp = None) \<longrightarrow>
            fst (UserServerAPIHandler_post h n s) = Inl (HTTPError 400 (AlreadyRunning n)))"
proof (cases "spawner (db s ! i)")
  case None
  then show ?thesis
    using server_post_authorized [OF assms] server_post_no_handle [OF assms(3)] by simp
next
  case (Some sp)
  show ?thesis
  proof (cases "poll sp")
    case None
    then show ?thesis
      using Some server_post_authorized [OF assms] server_post_alive [OF assms(3) Some] by simp
  next
    case (Some x)
    then show ?thesis
      using \<open>spawner (db s ! i) = Some sp\<close> server_post_authorized [OF assms]
        server_post_exited [OF assms(3) \<open>spawner (db s ! i) = Some sp\<close>] by simp
  qed
qed

theorem spawn_accepted_iff_no_live_process_witness:
  "(\<exists>r. fst (UserServerAPIHandler_post sample_request ''bob'' sample_hub) = Inr r) \<and>
   (\<exists>r. fst (UserServerAPIHandler_post sample_request ''bob''
              (sample_hub\<lparr>db := [root_user, alice, bob\<lparr>spawner := Some \<lparr>poll = Some 0\<rparr>\<rparr>]\<rparr>)) = Inr r) \<and>
   fst (UserServerAPIHandler_post sample_request ''bob''
          (sample_hub\<lparr>db := [root_user, alice, bob\<lparr>spawner := Some \<lparr>poll = None\<rparr>\<rparr>]\<rparr>))
     = Inl (HTTPError 400 (AlreadyRunning ''bob''))"
proof -
  have a: "\<exists>r. fst (UserServerAPIHandler_post sample_request ''bob'' sample_hub) = Inr r"
    using spawn_accepted_iff_no_live_process [of sample_request root_user "''bob''" sample_hub 2]
    by (simp add: sample_defs find_user_def)
  have b: "\<exists>r. fst (UserServerAPIHandler_post sample_request ''bob''
              (sample_hub\<lparr>db := [root_user, alice, bob\<lparr>spawner := Some \<lparr>poll = Some 0\<rparr>\<rparr>]\<rparr>)) = Inr r"
    using spawn_accepted_iff_no_live_process [of sample_request root_user "''bob''"
        "sample_hub\<lparr>db := [root_user, alice, bob\<lparr>spawner := Some \<lparr>poll = Some 0\<rparr>\<rparr>]\<rparr>" 2]
    by (simp add: sample_defs find_user_def)
  have c: "fst (UserServerAPIHandler_post sample_request ''bob''
          (sample_hub\<lparr>db := [root_user, alice, bob\<lparr>spawner := Some \<lparr>poll = None\<rparr>\<rparr>]\<rparr>))
     = Inl (HTTPError 400 (AlreadyRunning ''bob''))"
    using spawn_accepted_iff_no_live_process [of sample_request root_user "''bob''"
        "sample_hub\<lparr>db := [root_user, alice, bob\<lparr>spawner := Some \<lparr>poll = None\<rparr>\<rparr>]\<rparr>" 2]
    by (simp add: sample_defs find_user_def)
  from a b c show ?thesis by simp
qed

text \<open>
  C8.  StopServer by an authorized caller on an existing user \<open>u\<close>.  If \<open>u\<close> has
  \<open>stop_pending\<close> set, the reply is 202 and the hub is returned as it was: no poll
  and no second stop are issued.  Otherwise, if \<open>u\<close> is not running the request fails
  with 400 "not running", again without any call.  Otherwise the spawner is polled: an
  exit status (the process has exited) fails with 400 "not running" and nothing but the
  poll has happened; a null poll is followed by \<open>stop_single_user\<close>, and the reply is
  202 if the user object still has \<open>stop_pending\<close> set on return and 204 if not.
\<close>

theorem stop_server_cases:
  assumes "current_user h = Some c" and "name c = n \<or> admin c" and "find_user n s = Some i"
  shows "(stop_pending (db s ! i) \<longrightarrow>
            UserServerAPIHandler_delete h n s = (Inr \<lparr>status = 202, written = Nothing\<rparr>, s)) \<and>
         (\<not> stop_pending (db s ! i) \<and> \<not> running (db s ! i) \<longrightarrow>
            UserServerAPIHandler_delete h n s = (Inl (HTTPError 400 (NotRunning n)), s)) \<and>
         (\<forall>sp x. \<not> stop_pending (db s ! i) \<and> running (db s ! i) \<and>
                 spawner (db s ! i) = Some sp \<and> poll sp = Some x \<longrightarrow>
            UserServerAPIHandler_delete h n s =
              (Inl (HTTPError 400 (NotRunning n)), s\<lparr>calls := calls s @ [Poll n]\<rparr>)) \<and>
         (\<forall>sp. \<not> stop_pending (db s ! i) \<and> running (db s ! i) \<and>
               spawner (db s ! i) = Some sp \<and> poll sp = None \<longrightarrow>
            UserServerAPIHandler_delete h n s =
              (Inr \<lparr>status = (if stop_pending (stop_single_user h (db s ! i)) then 202 else 204),
                    written = Nothing\<rparr>,
               s\<lparr>db := (db s)[i := stop_single_user h (db s ! i)],
                 calls := calls s @ [Poll n, StopSingleUser n]\<rparr>))"
proof -
  note eq = server_delete_authorized [OF assms]
  note at = find_user_SomeD [OF assms(3)]
  have a: "stop_pending (db s ! i) \<longrightarrow>
            server_delete_undecorated h n s = (Inr \<lparr>status = 202, written = Nothing\<rparr>, s)"
    using assms(3) by (simp add: server_delete_undecorated_def)
  have b: "\<not> stop_pending (db s ! i) \<and> \<not> running (db s ! i) \<longrightarrow>
            server_delete_undecorated h n s = (Inl (HTTPError 400 (NotRunning n)), s)"
    using assms(3) by (simp add: server_delete_undecorated_def)
  have c: "\<forall>sp x. \<not> stop_pending (db s ! i) \<and> running (db s ! i) \<and>
                 spawner (db s ! i) = Some sp \<and> poll sp = Some x \<longrightarrow>
            server_delete_undecorated h n s =
              (Inl (HTTPError 400 (NotRunning n)), s\<lparr>calls := calls s @ [Poll n]\<rparr>)"
    using assms(3) at by (simp add: server_delete_undecorated_def log_call_def)
  have d: "\<forall>sp. \<not> stop_pending (db s ! i) \<and> running (db s ! i) \<and>
               spawner (db s ! i) = Some sp \<and> poll sp = None \<longrightarrow>
            server_delete_undecorated h n s =
              (Inr \<lparr>status = (if stop_pending (stop_single_user h (db s ! i)) then 202 else 204),
                    written = Nothing\<rparr>,
               s\<lparr>db := (db s)[i := stop_single_user h (db s ! i)],
                 calls := calls s @ [Poll n, StopSingleUser n]\<rparr>)"
    using assms(3) at
    by (simp add: server_delete_undecorated_def log_call_def put_user_def)
  from a b c d show ?thesis unfolding eq by blast
qed

theorem stop_server_cases_witness:
  "UserServerAPIHandler_delete sample_request ''bob''
     (sample_hub\<lparr>db := [root_user, alice,
        bob\<lparr>running := True, spawner := Some \<lparr>poll = None\<rparr>, stop_pending := True\<rparr>]\<rparr>)
   = (Inr \<lparr>status = 202, written = Nothing\<rparr>,
      sample_hub\<lparr>db := [root_user, alice,
        bob\<lparr>running := True, spawner := Some \<lparr>poll = None\<rparr>, stop_pending := True\<rparr>]\<rparr>) \<and>
   UserServerAPIHandler_delete sample_request ''bob'' sample_hub
   = (Inl (HTTPError 400 (NotRunning ''bob'')), sample_hub) \<and>
   UserServerAPIHandler_delete sample_request ''bob''
     (sample_hub\<lparr>db := [root_user, alice, bob\<lparr>running := True, spawner := Some \<lparr>poll = Some 0\<rparr>\<rparr>]\<rparr>)
   = (Inl (HTTPError 400 (NotRunning ''bob'')),
      \<lparr>db = [root_user, alice, bob\<lparr>running := True, spawner := Some \<lparr>poll = Some 0\<rparr>\<rparr>],
       calls = [Poll ''bob'']\<rparr>) \<and>
   UserServerAPIHandler_delete sample_request ''bob''
     (sample_hub\<lparr>db := [root_user, alice, bob\<lparr>running := True, spawner := Some \<lparr>poll = None\<rparr>\<rparr>]\<rparr>)
   = (Inr \<lparr>status = 202, written = Nothing\<rparr>,
      \<lparr>db = [root_user, alice,
             bob\<lparr>running := True, spawner := Some \<lparr>poll = None\<rparr>, stop_pending := True\<rparr>],
       calls = [Poll ''bob'', StopSingleUser ''bob'']\<rparr>) \<and>
   UserServerAPIHandler_delete
     (sample_request\<lparr>stop_single_user := (\<lambda>u. u\<lparr>running := False, spawner := None\<rparr>)\<rparr>) ''bob''
     (sample_hub\<lparr>db := [root_user, alice, bob\<lparr>running := True, spawner := Some \<lparr>poll = None\<rparr>\<rparr>]\<rparr>)
   = (Inr \<lparr>status = 204, written = Nothing\<rparr>,
      \<lparr>db = [root_user, alice, bob], calls = [Poll ''bob'', StopSingleUser ''bob'']\<rparr>)"
proof -
  have a: "UserServerAPIHandler_delete sample_request ''bob''
     (sample_hub\<lparr>db := [root_user, alice,
        bob\<lparr>running := True, spawner := Some \<lparr>poll = None\<rparr>, stop_pending := True\<rparr>]\<rparr>)
   = (Inr \<lparr>status = 202, written = Nothing\<rparr>,
      sample_hub\<lparr>db := [root_user, alice,
        bob\<lparr>running := True, spawner := Some \<lparr>poll = None\<rparr>, stop_pending := True\<rparr>]\<rparr>)"
    using stop_server_cases [of sample_request root_user "''bob''"
        "sample_hub\<lparr>db := [root_user, alice,
           bob\<lparr>running := True, spawner := Some \<lparr>poll = None\<rparr>, stop_pending := True\<rparr>]\<rparr>" 2]
    by (simp add: sample_defs find_user_def)
  have b: "UserServerAPIHandler_delete sample_request ''bob'' sample_hub
   = (Inl (HTTPError 400 (NotRunning ''bob'')), sample_hub)"
    using stop_server_cases [of sample_request root_user "''bob''" sample_hub 2]
    by (simp add: sample_defs find_user_def)
  have c: "UserServerAPIHandler_delete sample_request ''bob''
     (sample_hub\<lparr>db := [root_user, alice, bob\<lparr>running := True, spawner := Some \<lparr>poll = Some 0\<rparr>\<rparr>]\<rparr>)
   = (Inl (HTTPError 400 (NotRunning ''bob'')),
      \<lparr>db = [root_user, alice, bob\<lparr>running := True, spawner := Some \<lparr>poll = Some 0\<rparr>\<rparr>],
       calls = [Poll ''bob'']\<rparr>)"
    using stop_server_cases [of sample_request root_user "''bob''"
        "sample_hub\<lparr>db := [root_user, alice,
           bob\<lparr>running := True, spawner := Some \<lparr>poll = Some 0\<rparr>\<rparr>]\<rparr>" 2]
    by (simp add: sample_defs find_user_def)
  have d: "UserServerAPIHandler_delete sample_request ''bob''
     (sample_hub\<lparr>db := [root_user, alice, bob\<lparr>running := True, spawner := Some \<lparr>poll = None\<rparr>\<rparr>]\<rparr>)
   = (Inr \<lparr>status = 202, written = Nothing\<rparr>,
      \<lparr>db = [root_user, alice,
             bob\<lparr>running := True, spawner := Some \<lparr>poll = None\<rparr>, stop_pending := True\<rparr>],
       calls = [Poll ''bob'', StopSingleUser ''bob'']\<rparr>)"
    using stop_server_cases [of sample_request root_user "''bob''"
        "sample_hub\<lparr>db := [root_user, alice,
           bob\<lparr>running := True, spawner := Some \<lparr>poll = None\<rparr>\<rparr>]\<rparr>" 2]
    by (simp add: sample_defs find_user_def)
  have e: "UserServerAPIHandler_delete
     (sample_request\<lparr>stop_single_user := (\<lambda>u. u\<lparr>running := False, spawner := None\<rparr>)\<rparr>) ''bob''
     (sample_hub\<lparr>db := [root_user, alice, bob\<lparr>running := True, spawner := Some \<lparr>poll = None\<rparr>\<rparr>]\<rparr>)
   = (Inr \<lparr>status = 204, written = Nothing\<rparr>,
      \<lparr>db = [root_user, alice, bob], calls = [Poll ''bob'', StopSingleUser ''bob'']\<rparr>)"
    using stop_server_cases [of
        "sample_request\<lparr>stop_single_user := (\<lambda>u. u\<lparr>running := False, spawner := None\<rparr>)\<rparr>"
        root_user "''bob''"
        "sample_hub\<lparr>db := [root_user, alice,
           bob\<lparr>running := True, spawner := Some \<lparr>poll = None\<rparr>\<rparr>]\<rparr>" 2]
    by (simp add: sample_defs find_user_def)
  from a b c d e show ?thesis by simp
qed

section \<open>Admin access\<close>

text \<open>
  C10.  With the admin-access setting off, GrantAdminAccess by an admin caller fails
  with 403 "admin access to user servers disabled" for every target name and every hub,
  a name that resolves to no user included: the setting is tested before the target is
  looked up.  With the setting on, an absent target fails with 404 and a target that is
  not running with 400.  On these three paths the warning logged on entry is the only
  call made, and whenever the handler fails, for whatever caller, the rows are as they
  were and every call it added is that log entry: no server cookie is set.
\<close>

theorem admin_access_disabled_forbidden:
  "(\<forall>c. current_user h = Some c \<and> admin c \<and> \<not> admin_access h \<longrightarrow>
      UserAdminAccessAPIHandler_post h n s =
        (Inl (HTTPError 403 AdminAccessDisabled), s\<lparr>calls := calls s @ [LogWarn (name c) n]\<rparr>)) \<and>
   (\<forall>c. current_user h = Some c \<and> admin c \<and> admin_access h \<and> find_user n s = None \<longrightarrow>
      UserAdminAccessAPIHandler_post h n s =
        (Inl (HTTPError 404 NoMessage), s\<lparr>calls := calls s @ [LogWarn (name c) n]\<rparr>)) \<and>
   (\<forall>c i. current_user h = Some c \<and> admin c \<and> admin_access h \<and> find_user n s = Some i \<and>
          \<not> running (db s ! i) \<longrightarrow>
      UserAdminAccessAPIHandler_post h n s =
        (Inl (HTTPError 400 (NotRunning n)), s\<lparr>calls := calls s @ [LogWarn (name c) n]\<rparr>)) \<and>
   (\<forall>e s'. UserAdminAccessAPIHandler_post h n s = (Inl e, s') \<longrightarrow>
      db s' = db s \<and>
      (\<forall>x \<in> set (drop (length (calls s)) (calls s')). \<exists>a b. x = LogWarn a b))"
  by (auto simp: UserAdminAccessAPIHandler_post_def admin_only_def
      admin_access_post_undecorated_def log_call_def find_user_def Let_def
      split: option.splits if_splits)

theorem admin_access_disabled_forbidden_witness:
  "UserAdminAccessAPIHandler_post sample_request ''nobody'' sample_hub =
     (Inl (HTTPError 403 AdminAccessDisabled),
      \<lparr>db = [root_user, alice, bob], calls = [LogWarn ''root'' ''nobody'']\<rparr>) \<and>
   UserAdminAccessAPIHandler_post (sample_request\<lparr>admin_access := True\<rparr>) ''nobody'' sample_hub =
     (Inl (HTTPError 404 NoMessage),
      \<lparr>db = [root_user, alice, bob], calls = [LogWarn ''root'' ''nobody'']\<rparr>) \<and>
   UserAdminAccessAPIHandler_post (sample_request\<lparr>admin_access := True\<rparr>) ''alice'' sample_hub =
     (Inl (HTTPError 400 (NotRunning ''alice'')),
      \<lparr>db = [root_user, alice, bob], calls = [LogWarn ''root'' ''alice'']\<rparr>) \<and>
   set (drop (length (calls sample_hub))
         (calls (snd (UserAdminAccessAPIHandler_post sample_request ''alice'' sample_hub))))
     = {LogWarn ''root'' ''alice''}"
proof -
  have a: "UserAdminAccessAPIHandler_post sample_request ''nobody'' sample_hub =
     (Inl (HTTPError 403 AdminAccessDisabled),
      \<lparr>db = [root_user, alice, bob], calls = [LogWarn ''root'' ''nobody'']\<rparr>)"
    using admin_access_disabled_forbidden [of sample_request "''nobody''" sample_hub]
    by (simp add: sample_defs)
  have b: "UserAdminAccessAPIHandler_post (sample_request\<lparr>admin_access := True\<rparr>) ''nobody'' sample_hub =
     (Inl (HTTPError 404 NoMessage),
      \<lparr>db = [root_user, alice, bob], calls = [LogWarn ''root'' ''nobody'']\<rparr>)"
    using admin_access_disabled_forbidden [of "sample_request\<lparr>admin_access := True\<rparr>"
        "''nobody''" sample_hub]
    by (simp add: sample_defs find_user_def)
  have c: "UserAdminAccessAPIHandler_post (sample_request\<lparr>admin_access := True\<rparr>) ''alice'' sample_hub =
     (Inl (HTTPError 400 (NotRunning ''alice'')),
      \<lparr>db = [root_user, alice, bob], calls = [LogWarn ''root'' ''alice'']\<rparr>)"
    using admin_access_disabled_forbidden [of "sample_request\<lparr>admin_access := True\<rparr>"
        "''alice''" sample_hub]
    by (simp add: sample_defs find_user_def)
  have d: "UserAdminAccessAPIHandler_post sample_request ''alice'' sample_hub =
     (Inl (HTTPError 403 AdminAccessDisabled),
      \<lparr>db = [root_user, alice, bob], calls = [LogWarn ''root'' ''alice'']\<rparr>)"
    using admin_access_disabled_forbidden [of sample_request "''alice''" sample_hub]
    by (simp add: sample_defs)
  have e: "set (drop (length (calls sample_hub))
         (calls (snd (UserAdminAccessAPIHandler_post sample_request ''alice'' sample_hub))))
     = {LogWarn ''root'' ''alice''}"
    unfolding d by (simp add: sample_hub_def)
  from a b c e show ?thesis by simp
qed

section \<open>Deleting a user\<close>

lemma delete_authorized:
  assumes "current_user h = Some c" "admin c"
  shows "UserAPIHandler_delete h n s = delete_undecorated h n s"
  unfolding UserAPIHandler_delete_def using assms by (rule admin_only_pass)

lemma delete_finish_eq:
  assumes "delete_user h (db s ! i) = None"
  shows "delete_finish h i s =
           (Inr \<lparr>status = 204, written = Nothing\<rparr>,
            s\<lparr>db := take i (db s) @ drop (Suc i) (db s),
              calls := calls s @ [DeleteUser (name (db s ! i)), DbDelete (name (db s ! i)), DbCommit]\<rparr>)"
  using assms by (simp add: delete_finish_def hub_defs Let_def)

lemma delete_finish_raises:
  assumes "delete_user h (db s ! i) = Some x"
  shows "delete_finish h i s =
           (Inl (Uncaught (class_name x)), s\<lparr>calls := calls s @ [DeleteUser (name (db s ! i))]\<rparr>)"
  using assms by (simp add: delete_finish_def hub_defs Let_def)

lemma delete_self:
  assumes "current_user h = Some c" "find_user n s = Some i" "name c = n"
  shows "delete_undecorated h n s = (Inl (HTTPError 400 CannotDeleteYourself), s)"
  using assms find_user_SomeD [OF assms(2)] by (simp add: delete_undecorated_def)

lemma delete_stop_pending:
  assumes "current_user h = Some c" "find_user n s = Some i" "name c \<noteq> n"
    "stop_pending (db s ! i)"
  shows "delete_undecorated h n s = (Inl (HTTPError 400 (ProcessOfStopping n)), s)"
  using assms find_user_SomeD [OF assms(2)] by (simp add: delete_undecorated_def)

lemma delete_still_stopping:
  assumes "current_user h = Some c" "find_user n s = Some i" "name c \<noteq> n"
    "\<not> stop_pending (db s ! i)" "spawner (db s ! i) = Some sp"
    "stop_pending (stop_single_user h (db s ! i))"
  shows "delete_undecorated h n s =
           (Inl (HTTPError 400 (ProcessOfStopping n)),
            s\<lparr>db := (db s)[i := stop_single_user h (db s ! i)],
              calls := calls s @ [StopSingleUser n]\<rparr>)"
  using assms find_user_SomeD [OF assms(2)]
  by (simp add: delete_undecorated_def log_call_def put_user_def Let_def)

lemma delete_after_stop:
  assumes "current_user h = Some c" "find_user n s = Some i" "name c \<noteq> n"
    "\<not> stop_pending (db s ! i)" "spawner (db s ! i) = Some sp"
    "\<not> stop_pending (stop_single_user h (db s ! i))"
    "delete_user h (stop_single_user h (db s ! i)) = None"
  shows "delete_undecorated h n s =
           (Inr \<lparr>status = 204, written = Nothing\<rparr>,
            s\<lparr>db := take i (db s) @ drop (Suc i) (db s),
              calls := calls s @ [StopSingleUser n,
                                  DeleteUser (name (stop_single_user h (db s ! i))),
                                  DbDelete (name (stop_single_user h (db s ! i))),
                                  DbCommit]\<rparr>)"
  using assms find_user_SomeD [OF assms(2)]
  by (simp add: delete_undecorated_def log_call_def put_user_def delete_finish_eq Let_def)

lemma delete_no_server:
  assumes "current_user h = Some c" "find_user n s = Some i" "name c \<noteq> n"
    "\<not> stop_pending (db s ! i)" "spawner (db s ! i) = None"
    "delete_user h (db s ! i) = None"
  shows "delete_undecorated h n s =
           (Inr \<lparr>status = 204, written = Nothing\<rparr>,
            s\<lparr>db := take i (db s) @ drop (Suc i) (db s),
              calls := calls s @ [DeleteUser n, DbDelete n, DbCommit]\<rparr>)"
  using assms find_user_SomeD [OF assms(2)]
  by (simp add: delete_undecorated_def delete_finish_eq Let_def)

text \<open>
  When \<open>authenticator.delete_user\<close> raises, the exception leaves the handler and the
  row is still in the database.
\<close>

lemma delete_after_stop_raises:
  assumes "current_user h = Some c" "find_user n s = Some i" "name c \<noteq> n"
    "\<not> stop_pending (db s ! i)" "spawner (db s ! i) = Some sp"
    "\<not> stop_pending (stop_single_user h (db s ! i))"
    "delete_user h (stop_single_user h (db s ! i)) = Some x"
  shows "delete_undecorated h n s =
           (Inl (Uncaught (class_name x)),
            s\<lparr>db := (db s)[i := stop_single_user h (db s ! i)],
              calls := calls s @ [StopSingleUser n,
                                  DeleteUser (name (stop_single_user h (db s ! i)))]\<rparr>)"
  using assms find_user_SomeD [OF assms(2)]
  by (simp add: delete_undecorated_def log_call_def put_user_def delete_finish_raises Let_def)

lemma delete_no_server_raises:
  assumes "current_user h = Some c" "find_user n s = Some i" "name c \<noteq> n"
    "\<not> stop_pending (db s ! i)" "spawner (db s ! i) = None"
    "delete_user h (db s ! i) = Some x"
  shows "delete_undecorated h n s =
           (Inl (Uncaught (class_name x)), s\<lparr>calls := calls s @ [DeleteUser n]\<rparr>)"
  using assms find_user_SomeD [OF assms(2)]
  by (simp add: delete_undecorated_def delete_finish_raises Let_def)

text \<open>
  C5, as the spec words it, fails in its first part: DeleteUser is behind
  \<open>admin_only\<close>, so a caller without the admin privilege who gives their own name is
  refused with 403 by the gate and never reaches the self-deletion check.
\<close>

theorem delete_self_without_privilege_forbidden:
  "UserAPIHandler_delete (sample_request\<lparr>current_user := Some bob\<rparr>) ''bob'' sample_hub
     = (Inl (HTTPError 403 NoMessage), sample_hub)"
  by (simp add: UserAPIHandler_delete_def admin_only_def sample_defs)

text \<open>
  C5, amended.  DeleteUser of an existing user \<open>u\<close> named \<open>n\<close>.  When \<open>n\<close> is the
  caller's own name the request fails and the hub is left as it was whatever the
  caller's privilege; for an admin caller the failure is 400 "Cannot delete yourself!"
  (a caller who is not an admin is refused by the gate before).  For an admin
  caller with another name: if \<open>u\<close> has \<open>stop_pending\<close> set the request fails with
  400 "in the process of stopping" and nothing is called; if \<open>u\<close> has a spawner,
  \<open>stop_single_user\<close> is called first and \<open>stop_pending\<close> is read again: if it is
  set the request fails with the same 400 and the row is still there (neither the
  authenticator nor the database delete is called), and only if it is clear is
  \<open>authenticator.delete_user\<close> called; when that call returns, the row is deleted and
  the deletion committed (204).  A user without a spawner is deleted in the same way
  without a stop.
\<close>

theorem delete_user_cases:
  assumes "current_user h = Some c" and "find_user n s = Some i"
  shows "(name c = n \<longrightarrow>
            (\<exists>e. UserAPIHandler_delete h n s = (Inl e, s)) \<and>
            (admin c \<longrightarrow>
               UserAPIHandler_delete h n s = (Inl (HTTPError 400 CannotDeleteYourself), s))) \<and>
         (admin c \<and> name c \<noteq> n \<and> stop_pending (db s ! i) \<longrightarrow>
            UserAPIHandler_delete h n s = (Inl (HTTPError 400 (ProcessOfStopping n)), s)) \<and>
         (\<forall>sp. admin c \<and> name c \<noteq> n \<and> \<not> stop_pending (db s ! i) \<and>
               spawner (db s ! i) = Some sp \<and> stop_pending (stop_single_user h (db s ! i)) \<longrightarrow>
            UserAPIHandler_delete h n s =
              (Inl (HTTPError 400 (ProcessOfStopping n)),
               s\<lparr>db := (db s)[i := stop_single_user h (db s ! i)],
                 calls := calls s @ [StopSingleUser n]\<rparr>)) \<and>
         (\<forall>sp. admin c \<and> name c \<noteq> n \<and> \<not> stop_pending (db s ! i) \<and>
               spawner (db s ! i) = Some sp \<and> \<not> stop_pending (stop_single_user h (db s ! i)) \<and>
               delete_user h (stop_single_user h (db s ! i)) = None \<longrightarrow>
            UserAPIHandler_delete h n s =
              (Inr \<lparr>status = 204, written = Nothing\<rparr>,
               s\<lparr>db := take i (db s) @ drop (Suc i) (db s),
                 calls := calls s @ [StopSingleUser n,
                                     DeleteUser (name (stop_single_user h (db s ! i))),
                                     DbDelete (name (stop_single_user h (db s ! i))),
                                     DbCommit]\<rparr>)) \<and>
         (admin c \<and> name c \<noteq> n \<and> \<not> stop_pending (db s ! i) \<and> spawner (db s ! i) = None \<and>
          delete_user h (db s ! i) = None \<longrightarrow>
            UserAPIHandler_delete h n s =
              (Inr \<lparr>status = 204, written = Nothing\<rparr>,
               s\<lparr>db := take i (db s) @ drop (Suc i) (db s),
                 calls := calls s @ [DeleteUser n, DbDelete n, DbCommit]\<rparr>))"
proof (cases "admin c")
  case False
  then have "UserAPIHandler_delete h n s = (Inl (HTTPError 403 NoMessage), s)"
    using assms(1) by (simp add: UserAPIHandler_delete_def admin_only_def)
  with False show ?thesis by simp
next
  case True
  note eq = delete_authorized [OF assms(1) True]
  show ?thesis
    unfolding eq
    using True delete_self [OF assms] delete_stop_pending [OF assms]
      delete_still_stopping [OF assms] delete_after_stop [OF assms]
      delete_no_server [OF assms]
    by blast
qed

theorem delete_user_cases_witness:
  "UserAPIHandler_delete sample_request ''root'' sample_hub
     = (Inl (HTTPError 400 CannotDeleteYourself), sample_hub) \<and>
   (\<exists>e. UserAPIHandler_delete (sample_request\<lparr>current_user := Some bob\<rparr>) ''bob'' sample_hub
           = (Inl e, sample_hub)) \<and>
   UserAPIHandler_delete sample_request ''bob''
     (sample_hub\<lparr>db := [root_user, alice, bob\<lparr>spawner := Some \<lparr>poll = None\<rparr>, stop_pending := True\<rparr>]\<rparr>)
     = (Inl (HTTPError 400 (ProcessOfStopping ''bob'')),
        sample_hub\<lparr>db := [root_user, alice,
                           bob\<lparr>spawner := Some \<lparr>poll = None\<rparr>, stop_pending := True\<rparr>]\<rparr>) \<and>
   UserAPIHandler_delete sample_request ''bob''
     (sample_hub\<lparr>db := [root_user, alice, bob\<lparr>spawner := Some \<lparr>poll = None\<rparr>\<rparr>]\<rparr>)
     = (Inl (HTTPError 400 (ProcessOfStopping ''bob'')),
        \<lparr>db = [root_user, alice, bob\<lparr>spawner := Some \<lparr>poll = None\<rparr>, stop_pending := True\<rparr>],
         calls = [StopSingleUser ''bob'']\<rparr>) \<and>
   UserAPIHandler_delete (sample_request\<lparr>stop_single_user := (\<lambda>u. u\<lparr>spawner := None\<rparr>)\<rparr>) ''bob''
     (sample_hub\<lparr>db := [root_user, alice, bob\<lparr>spawner := Some \<lparr>poll = None\<rparr>\<rparr>]\<rparr>)
     = (Inr \<lparr>status = 204, written = Nothing\<rparr>,
        \<lparr>db = [root_user, alice],
         calls = [StopSingleUser ''bob'', DeleteUser ''bob'', DbDelete ''bob'', DbCommit]\<rparr>) \<and>
   UserAPIHandler_delete sample_request ''bob'' sample_hub
     = (Inr \<lparr>status = 204, written = Nothing\<rparr>,
        \<lparr>db = [root_user, alice], calls = [DeleteUser ''bob'', DbDelete ''bob'', DbCommit]\<rparr>)"
proof -
  have a: "UserAPIHandler_delete sample_request ''root'' sample_hub
     = (Inl (HTTPError 400 CannotDeleteYourself), sample_hub)"
    using delete_user_cases [of sample_request root_user "''root''" sample_hub 0]
    by (simp add: sample_defs find_user_def)
  have b: "\<exists>e. UserAPIHandler_delete (sample_request\<lparr>current_user := Some bob\<rparr>) ''bob'' sample_hub
           = (Inl e, sample_hub)"
    using delete_user_cases [of "sample_request\<lparr>current_user := Some bob\<rparr>" bob "''bob''" sample_hub 2]
    by (simp add: sample_defs find_user_def)
  have c: "UserAPIHandler_delete sample_request ''bob''
     (sample_hub\<lparr>db := [root_user, alice, bob\<lparr>spawner := Some \<lparr>poll = None\<rparr>, stop_pending := True\<rparr>]\<rparr>)
     = (Inl (HTTPError 400 (ProcessOfStopping ''bob'')),
        sample_hub\<lparr>db := [root_user, alice,
                           bob\<lparr>spawner := Some \<lparr>poll = None\<rparr>, stop_pending := True\<rparr>]\<rparr>)"
    using delete_user_cases [of sample_request root_user "''bob''"
        "sample_hub\<lparr>db := [root_user, alice,
            bob\<lparr>spawner := Some \<lparr>poll = None\<rparr>, stop_pending := True\<rparr>]\<rparr>" 2]
    by (simp add: sample_defs find_user_def)
  have d: "UserAPIHandler_delete sample_request ''bob''
     (sample_hub\<lparr>db := [root_user, alice, bob\<lparr>spawner := Some \<lparr>poll = None\<rparr>\<rparr>]\<rparr>)
     = (Inl (HTTPError 400 (ProcessOfStopping ''bob'')),
        \<lparr>db = [root_user, alice, bob\<lparr>spawner := Some \<lparr>poll = None\<rparr>, stop_pending := True\<rparr>],
         calls = [StopSingleUser ''bob'']\<rparr>)"
    using delete_user_cases [of sample_request root_user "''bob''"
        "sample_hub\<lparr>db := [root_user, alice, bob\<lparr>spawner := Some \<lparr>poll = None\<rparr>\<rparr>]\<rparr>" 2]
    by (simp add: sample_defs find_user_def)
  have e: "UserAPIHandler_delete (sample_request\<lparr>stop_single_user := (\<lambda>u. u\<lparr>spawner := None\<rparr>)\<rparr>) ''bob''
     (sample_hub\<lparr>db := [root_user, alice, bob\<lparr>spawner := Some \<lparr>poll = None\<rparr>\<rparr>]\<rparr>)
     = (Inr \<lparr>status = 204, written = Nothing\<rparr>,
        \<lparr>db = [root_user, alice],
         calls = [StopSingleUser ''bob'', DeleteUser ''bob'', DbDelete ''bob'', DbCommit]\<rparr>)"
    using delete_user_cases [of "sample_request\<lparr>stop_single_user := (\<lambda>u. u\<lparr>spawner := None\<rparr>)\<rparr>"
        root_user "''bob''"
        "sample_hub\<lparr>db := [root_user, alice, bob\<lparr>spawner := Some \<lparr>poll = None\<rparr>\<rparr>]\<rparr>" 2]
    by (simp add: sample_defs find_user_def)
  have f: "UserAPIHandler_delete sample_request ''bob'' sample_hub
     = (Inr \<lparr>status = 204, written = Nothing\<rparr>,
        \<lparr>db = [root_user, alice], calls = [DeleteUser ''bob'', DbDelete ''bob'', DbCommit]\<rparr>)"
    using delete_user_cases [of sample_request root_user "''bob''" sample_hub 2]
    by (simp add: sample_defs find_user_def)
  from a b c d e f show ?thesis by simp
qed

section \<open>Validation of payloads\<close>

lemma isinstance_PyStr: "isinstance v PyStr \<longleftrightarrow> (\<exists>x. v = JStr x)"
  by (cases v) simp_all

lemma isinstance_PyBool: "isinstance v PyBool \<longleftrightarrow> (\<exists>b. v = JBool b)"
  by (cases v) simp_all

lemma map_of_model_types:
  "map_of model_types k = Some t \<longleftrightarrow> (k = ''name'' \<and> t = PyStr) \<or> (k = ''admin'' \<and> t = PyBool)"
  by (auto simp: model_types_def)

lemma map_of_model_types_None:
  "map_of model_types k = None \<longleftrightarrow> k \<noteq> ''name'' \<and> k \<noteq> ''admin''"
  by (auto simp: model_types_def)

lemma check_items_InrD:
  "check_items kvs = Inr () \<Longrightarrow> (k, v) \<in> set kvs \<Longrightarrow>
   (k = ''name'' \<and> (\<exists>x. v = JStr x)) \<or> (k = ''admin'' \<and> (\<exists>b. v = JBool b))"
proof (induction kvs)
  case Nil
  then show ?case by simp
next
  case (Cons kv kvs)
  obtain k' v' where kv: "kv = (k', v')" by (cases kv)
  from Cons.prems(1) obtain t where t: "map_of model_types k' = Some t"
    and ok: "isinstance v' t" and rest: "check_items kvs = Inr ()"
    unfolding kv by (auto split: option.splits if_splits)
  show ?case
  proof (cases "(k, v) = (k', v')")
    case True
    with t ok show ?thesis
      by (auto simp: map_of_model_types isinstance_PyStr isinstance_PyBool)
  next
    case False
    with Cons.prems(2) kv have "(k, v) \<in> set kvs" by auto
    with Cons.IH rest show ?thesis by blast
  qed
qed

lemma check_items_well_typed:
  "\<forall>(k, v) \<in> set kvs. \<exists>t. map_of model_types k = Some t \<and> isinstance v t \<Longrightarrow>
   check_items kvs = Inr ()"
  by (induction kvs) auto

lemma check_items_mismatch:
  "fst ` set kvs \<subseteq> {''name'', ''admin''} \<Longrightarrow>
   \<exists>(k, v) \<in> set kvs. \<exists>t. map_of model_types k = Some t \<and> \<not> isinstance v t \<Longrightarrow>
   \<exists>k v t. (k, v) \<in> set kvs \<and> map_of model_types k = Some t \<and> \<not> isinstance v t \<and>
           check_items kvs = Inl (HTTPError 400 (MustBe k t))"
proof (induction kvs)
  case Nil
  then show ?case by simp
next
  case (Cons kv kvs)
  obtain k' v' where kv: "kv = (k', v')" by (cases kv)
  from Cons.prems(1) kv obtain t' where t': "map_of model_types k' = Some t'"
    by (auto simp: map_of_model_types)
  show ?case
  proof (cases "isinstance v' t'")
    case False
    with t' kv show ?thesis by auto
  next
    case True
    with Cons.prems(2) kv t'
    have "\<exists>(k, v) \<in> set kvs. \<exists>t. map_of model_types k = Some t \<and> \<not> isinstance v t"
      by auto
    moreover from Cons.prems(1) have "fst ` set kvs \<subseteq> {''name'', ''admin''}" by auto
    ultimately obtain k v t where "(k, v) \<in> set kvs" "map_of model_types k = Some t"
      "\<not> isinstance v t" "check_items kvs = Inl (HTTPError 400 (MustBe k t))"
      using Cons.IH by blast
    with True t' kv show ?thesis by auto
  qed
qed

lemma model_types_keys: "fst ` set model_types = {''name'', ''admin''}"
  by (auto simp: model_types_def)

lemma check_not_dict:
  "\<forall>kvs. model \<noteq> JDict kvs \<Longrightarrow>
   check_user_model model = Inl (HTTPError 400 (InvalidJSONData model))"
  by (cases model) (simp_all add: check_user_model_def)

lemma check_bad_keys:
  "\<not> fst ` set kvs \<subseteq> {''name'', ''admin''} \<Longrightarrow>
   check_user_model (JDict kvs) = Inl (HTTPError 400 (InvalidJSONKeys (JDict kvs)))"
  by (simp add: check_user_model_def model_types_keys)

lemma check_good_keys:
  "fst ` set kvs \<subseteq> {''name'', ''admin''} \<Longrightarrow> check_user_model (JDict kvs) = check_items kvs"
  by (simp add: check_user_model_def model_types_keys)

lemma check_user_model_InrD:
  "check_user_model model = Inr () \<Longrightarrow> \<exists>kvs. model = JDict kvs \<and> check_items kvs = Inr ()"
  by (cases model) (auto simp: check_user_model_def split: if_splits)

lemma patch_authorized:
  assumes "current_user h = Some c" "admin c"
  shows "UserAPIHandler_patch h n s = patch_undecorated h n s"
  unfolding UserAPIHandler_patch_def using assms by (rule admin_only_pass)

lemma post_authorized:
  assumes "current_user h = Some c" "admin c"
  shows "UserAPIHandler_post h n s = post_undecorated h n s"
  unfolding UserAPIHandler_post_def using assms by (rule admin_only_pass)

lemma patch_invalid_unchanged:
  assumes "find_user n s = Some i" "check_user_model (json_body h) = Inl e"
  shows "patch_undecorated h n s = (Inl e, s)"
  using assms by (simp add: patch_undecorated_def)

lemma user_from_username_new:
  assumes "find_user n s = None"
  shows "user_from_username h n s =
           (length (db s),
            s\<lparr>db := db s @ [new_user h n], calls := calls s @ [DbAdd n, DbCommit]\<rparr>)"
  using assms by (simp add: user_from_username_def hub_defs new_user_def)

lemma post_invalid:
  assumes "find_user n s = None" "truthy (json_body h)" "check_user_model (json_body h) = Inl e"
  shows "post_undecorated h n s =
           (Inl e, s\<lparr>db := db s @ [new_user h n], calls := calls s @ [DbAdd n, DbCommit]\<rparr>)"
  using assms by (simp add: post_undecorated_def user_from_username_new post_fields_def)

lemma post_provision_new:
  assumes "db s = xs @ [u]"
  shows "post_provision h n (length xs) s =
     (case add_user h u of
        Some (Exception c) \<Rightarrow>
          (Inl (HTTPError 400 (FailedToCreate n)),
           s\<lparr>db := xs,
             calls := calls s @ [AddUser (name u), LogError n, DbDelete (name u), DbCommit]\<rparr>)
      | Some (BaseException c) \<Rightarrow>
          (Inl (Uncaught c), s\<lparr>calls := calls s @ [AddUser (name u)]\<rparr>)
      | None \<Rightarrow> (Inr \<lparr>status = 201, written = Model (user_model u)\<rparr>,
                 s\<lparr>calls := calls s @ [AddUser (name u)]\<rparr>))"
  using assms by (simp add: post_provision_def hub_defs Let_def split: option.splits exn.splits)

lemma post_unvalidated:
  assumes "find_user n s = None" "\<not> truthy (json_body h)"
  shows "post_undecorated h n s =
           post_provision h n (length (db s))
             (s\<lparr>db := db s @ [new_user h n], calls := calls s @ [DbAdd n, DbCommit]\<rparr>)"
  using assms by (simp add: post_undecorated_def user_from_username_new post_fields_def)

text \<open>
  C4, as the spec words it, fails for CreateUser: a request without a body (or with the
  body \<open>null\<close>) is not validated.  \<open>_check_user_model\<close> would refuse the payload, and the
  user is created with status 201.
\<close>

theorem create_user_skips_validation_of_null:
  "check_user_model JNull = Inl (HTTPError 400 (InvalidJSONData JNull)) \<and>
   fst (UserAPIHandler_post (sample_request\<lparr>json_body := JNull\<rparr>) ''carol'' sample_hub)
     = Inr \<lparr>status = 201, written = Model (user_model (new_user sample_request ''carol''))\<rparr>"
  by (simp add: handler_defs hub_defs sample_defs)

text \<open>
  C4, amended.  \<open>_check_user_model\<close> refuses a payload that is not a mapping with 400
  "Invalid JSON data", a mapping with a key other than \<open>name\<close> and \<open>admin\<close> with 400
  "Invalid JSON keys", and a mapping of allowed keys one of whose values is not of the
  declared type (\<open>name\<close>: str, \<open>admin\<close>: bool) with 400 "user.<key> must be <type>";
  every other payload passes, and the check is a function of the payload alone.
  UpdateUser runs the check on every payload and reports its error with the hub
  untouched.  CreateUser reports the error of the check for every payload that is true
  in Python's sense; with no body or the body \<open>null\<close>, as with the empty mapping, it
  does not validate and goes on to provisioning as if no field had been given.
\<close>

theorem payload_validation:
  "((\<forall>kvs. model \<noteq> JDict kvs) \<longrightarrow>
      check_user_model model = Inl (HTTPError 400 (InvalidJSONData model))) \<and>
   (\<forall>kvs. model = JDict kvs \<and> \<not> fst ` set kvs \<subseteq> {''name'', ''admin''} \<longrightarrow>
      check_user_model model = Inl (HTTPError 400 (InvalidJSONKeys model))) \<and>
   (\<forall>kvs. model = JDict kvs \<and> fst ` set kvs \<subseteq> {''name'', ''admin''} \<and>
          (\<exists>(k, v) \<in> set kvs. \<exists>t. map_of model_types k = Some t \<and> \<not> isinstance v t) \<longrightarrow>
      (\<exists>k v t. (k, v) \<in> set kvs \<and> map_of model_types k = Some t \<and> \<not> isinstance v t \<and>
               check_user_model model = Inl (HTTPError 400 (MustBe k t)))) \<and>
   (\<forall>kvs. model = JDict kvs \<and>
          (\<forall>(k, v) \<in> set kvs. \<exists>t. map_of model_types k = Some t \<and> isinstance v t) \<longrightarrow>
      check_user_model model = Inr ()) \<and>
   (\<forall>c i e. current_user h = Some c \<and> admin c \<and> find_user n s = Some i \<and>
            json_body h = model \<and> check_user_model model = Inl e \<longrightarrow>
      UserAPIHandler_patch h n s = (Inl e, s)) \<and>
   (\<forall>c e. current_user h = Some c \<and> admin c \<and> find_user n s = None \<and>
          json_body h = model \<and> truthy model \<and> check_user_model model = Inl e \<longrightarrow>
      fst (UserAPIHandler_post h n s) = Inl e) \<and>
   (\<forall>c. current_user h = Some c \<and> admin c \<and> find_user n s = None \<and>
        json_body h = model \<and> (model = JNull \<or> model = JDict []) \<longrightarrow>
      fst (UserAPIHandler_post h n s) =
        (case add_user h (new_user h n) of
           Some (Exception x) \<Rightarrow> Inl (HTTPError 400 (FailedToCreate n))
         | Some (BaseException x) \<Rightarrow> Inl (Uncaught x)
         | None \<Rightarrow> Inr \<lparr>status = 201, written = Model (user_model (new_user h n))\<rparr>))"
proof -
  have a: "(\<forall>kvs. model \<noteq> JDict kvs) \<longrightarrow>
      check_user_model model = Inl (HTTPError 400 (InvalidJSONData model))"
    using check_not_dict by blast
  have b: "\<forall>kvs. model = JDict kvs \<and> \<not> fst ` set kvs \<subseteq> {''name'', ''admin''} \<longrightarrow>
      check_user_model model = Inl (HTTPError 400 (InvalidJSONKeys model))"
    using check_bad_keys by blast
  have c: "\<forall>kvs. model = JDict kvs \<and> fst ` set kvs \<subseteq> {''name'', ''admin''} \<and>
          (\<exists>(k, v) \<in> set kvs. \<exists>t. map_of model_types k = Some t \<and> \<not> isinstance v t) \<longrightarrow>
      (\<exists>k v t. (k, v) \<in> set kvs \<and> map_of model_types k = Some t \<and> \<not> isinstance v t \<and>
               check_user_model model = Inl (HTTPError 400 (MustBe k t)))"
    using check_items_mismatch by (simp add: check_good_keys)
  have d: "\<forall>kvs. model = JDict kvs \<and>
          (\<forall>(k, v) \<in> set kvs. \<exists>t. map_of model_types k = Some t \<and> isinstance v t) \<longrightarrow>
      check_user_model model = Inr ()"
  proof (intro allI impI)
    fix kvs
    assume h: "model = JDict kvs \<and>
          (\<forall>(k, v) \<in> set kvs. \<exists>t. map_of model_types k = Some t \<and> isinstance v t)"
    then have "fst ` set kvs \<subseteq> {''name'', ''admin''}"
      by (fastforce simp: map_of_model_types)
    with h show "check_user_model model = Inr ()"
      by (simp add: check_good_keys check_items_well_typed)
  qed
  have e: "\<forall>c i e. current_user h = Some c \<and> admin c \<and> find_user n s = Some i \<and>
            json_body h = model \<and> check_user_model model = Inl e \<longrightarrow>
      UserAPIHandler_patch h n s = (Inl e, s)"
    by (auto simp: patch_authorized patch_invalid_unchanged)
  have f: "\<forall>c e. current_user h = Some c \<and> admin c \<and> find_user n s = None \<and>
          json_body h = model \<and> truthy model \<and> check_user_model model = Inl e \<longrightarrow>
      fst (UserAPIHandler_post h n s) = Inl e"
    by (auto simp: post_authorized post_invalid)
  have g: "\<forall>c. current_user h = Some c \<and> admin c \<and> find_user n s = None \<and>
        json_body h = model \<and> (model = JNull \<or> model = JDict []) \<longrightarrow>
      fst (UserAPIHandler_post h n s) =
        (case add_user h (new_user h n) of
           Some (Exception x) \<Rightarrow> Inl (HTTPError 400 (FailedToCreate n))
         | Some (BaseException x) \<Rightarrow> Inl (Uncaught x)
         | None \<Rightarrow> Inr \<lparr>status = 201, written = Model (user_model (new_user h n))\<rparr>)"
  proof (intro allI impI)
    fix c
    assume pre: "current_user h = Some c \<and> admin c \<and> find_user n s = None \<and>
        json_body h = model \<and> (model = JNull \<or> model = JDict [])"
    then have falsy: "\<not> truthy (json_body h)" by auto
    from pre have eq: "UserAPIHandler_post h n s = post_undecorated h n s"
      by (simp add: post_authorized)
    from pre falsy show "fst (UserAPIHandler_post h n s) =
        (case add_user h (new_user h n) of
           Some (Exception x) \<Rightarrow> Inl (HTTPError 400 (FailedToCreate n))
         | Some (BaseException x) \<Rightarrow> Inl (Uncaught x)
         | None \<Rightarrow> Inr \<lparr>status = 201, written = Model (user_model (new_user h n))\<rparr>)"
      unfolding eq
      by (simp add: post_unvalidated post_provision_new split: option.splits exn.splits)
  qed
  from a b c d e f g show ?thesis by blast
qed
theorem payload_validation_witness:
  "check_user_model (JList [JInt 1]) = Inl (HTTPError 400 (InvalidJSONData (JList [JInt 1]))) \<and>
   check_user_model (JDict [(''foo'', JInt 1)])
     = Inl (HTTPError 400 (InvalidJSONKeys (JDict [(''foo'', JInt 1)]))) \<and>
   check_user_model (JDict [(''admin'', JInt 1)]) = Inl (HTTPError 400 (MustBe ''admin'' PyBool)) \<and>
   check_user_model (JDict [(''name'', JStr ''carl''), (''admin'', JBool True)]) = Inr () \<and>
   UserAPIHandler_patch (sample_request\<lparr>json_body := JList [JInt 1]\<rparr>) ''bob'' sample_hub
     = (Inl (HTTPError 400 (InvalidJSONData (JList [JInt 1]))), sample_hub) \<and>
   fst (UserAPIHandler_post (sample_request\<lparr>json_body := JDict [(''foo'', JInt 1)]\<rparr>) ''carol''
          sample_hub)
     = Inl (HTTPError 400 (InvalidJSONKeys (JDict [(''foo'', JInt 1)]))) \<and>
   fst (UserAPIHandler_post (sample_request\<lparr>json_body := JDict []\<rparr>) ''carol'' sample_hub)
     = Inr \<lparr>status = 201, written = Model (user_model (new_user sample_request ''carol''))\<rparr> \<and>
   fst (UserAPIHandler_post sample_request ''dave'' sample_hub)
     = Inr \<lparr>status = 201, written = Model (user_model (new_user sample_request ''dave''))\<rparr>"
proof -
  have a: "check_user_model (JList [JInt 1]) = Inl (HTTPError 400 (InvalidJSONData (JList [JInt 1])))"
    using payload_validation [of "JList [JInt 1]" sample_request "''bob''" sample_hub]
    by simp
  have b: "check_user_model (JDict [(''foo'', JInt 1)])
     = Inl (HTTPError 400 (InvalidJSONKeys (JDict [(''foo'', JInt 1)])))"
    using payload_validation [of "JDict [(''foo'', JInt 1)]" sample_request "''bob''" sample_hub]
    by simp
  have c: "check_user_model (JDict [(''admin'', JInt 1)]) = Inl (HTTPError 400 (MustBe ''admin'' PyBool))"
    using payload_validation [of "JDict [(''admin'', JInt 1)]" sample_request "''bob''" sample_hub]
    by (auto simp: map_of_model_types)
  have d: "check_user_model (JDict [(''name'', JStr ''carl''), (''admin'', JBool True)]) = Inr ()"
    using payload_validation [of "JDict [(''name'', JStr ''carl''), (''admin'', JBool True)]"
        sample_request "''bob''" sample_hub]
    by (simp add: map_of_model_types)
  have e: "UserAPIHandler_patch (sample_request\<lparr>json_body := JList [JInt 1]\<rparr>) ''bob'' sample_hub
     = (Inl (HTTPError 400 (InvalidJSONData (JList [JInt 1]))), sample_hub)"
    using payload_validation [of "JList [JInt 1]" "sample_request\<lparr>json_body := JList [JInt 1]\<rparr>"
        "''bob''" sample_hub] a
    by (simp add: sample_defs find_user_def)
  have f: "fst (UserAPIHandler_post (sample_request\<lparr>json_body := JDict [(''foo'', JInt 1)]\<rparr>) ''carol''
          sample_hub)
     = Inl (HTTPError 400 (InvalidJSONKeys (JDict [(''foo'', JInt 1)])))"
    using payload_validation [of "JDict [(''foo'', JInt 1)]"
        "sample_request\<lparr>json_body := JDict [(''foo'', JInt 1)]\<rparr>" "''carol''" sample_hub] b
    by (simp add: sample_defs find_user_def)
  have g: "fst (UserAPIHandler_post (sample_request\<lparr>json_body := JDict []\<rparr>) ''carol'' sample_hub)
     = Inr \<lparr>status = 201, written = Model (user_model (new_user sample_request ''carol''))\<rparr>"
    using payload_validation [of "JDict []" "sample_request\<lparr>json_body := JDict []\<rparr>"
        "''carol''" sample_hub]
    by (simp add: sample_defs find_user_def new_user_def)
  have h: "fst (UserAPIHandler_post sample_request ''dave'' sample_hub)
     = Inr \<lparr>status = 201, written = Model (user_model (new_user sample_request ''dave''))\<rparr>"
    using payload_validation [of JNull sample_request "''dave''" sample_hub]
    by (simp add: sample_defs find_user_def new_user_def)
  from a b c d e f g h show ?thesis by simp
qed

section \<open>Creating a user\<close>

lemma setattr_user_admin: "setattr_user u ''admin'' (JBool b) = u\<lparr>admin := b\<rparr>"
  by (simp add: setattr_user_def)

lemma post_fields_falsy: "\<not> truthy data \<Longrightarrow> post_fields data i s = Inr s"
  by (simp add: post_fields_def)

lemma post_fields_dict:
  assumes "truthy (JDict kvs)" "check_user_model (JDict kvs) = Inr ()"
  shows "post_fields (JDict kvs) i s =
           (case map_of kvs ''admin'' of
              Some v \<Rightarrow> Inr (db_commit (put_user i (setattr_user (db s ! i) ''admin'' v) s))
            | None \<Rightarrow> Inr s)"
  unfolding post_fields_def using assms by simp

lemma post_fields_passes:
  assumes "\<not> truthy data \<or> check_user_model data = Inr ()"
  shows "post_fields data i s = Inr s \<or>
         (\<exists>b. post_fields data i s =
                Inr (s\<lparr>db := (db s)[i := (db s ! i)\<lparr>admin := b\<rparr>], calls := calls s @ [DbCommit]\<rparr>))"
proof (cases "truthy data")
  case False
  then show ?thesis by (simp add: post_fields_falsy)
next
  case True
  with assms have ok: "check_user_model data = Inr ()" by simp
  then obtain kvs where kvs: "data = JDict kvs" and items: "check_items kvs = Inr ()"
    using check_user_model_InrD by blast
  from True ok kvs have pf: "post_fields data i s =
           (case map_of kvs ''admin'' of
              Some v \<Rightarrow> Inr (db_commit (put_user i (setattr_user (db s ! i) ''admin'' v) s))
            | None \<Rightarrow> Inr s)"
    using post_fields_dict [of kvs i s] by simp
  show ?thesis
  proof (cases "map_of kvs ''admin''")
    case None
    with pf show ?thesis by simp
  next
    case (Some v)
    then have "(''admin'', v) \<in> set kvs" by (rule map_of_SomeD)
    from check_items_InrD [OF items this] obtain b where b: "v = JBool b" by auto
    have "post_fields data i s = Inr (db_commit (put_user i ((db s ! i)\<lparr>admin := b\<rparr>) s))"
      unfolding pf Some b by (simp add: setattr_user_admin)
    then have "post_fields data i s =
                Inr (s\<lparr>db := (db s)[i := (db s ! i)\<lparr>admin := b\<rparr>], calls := calls s @ [DbCommit]\<rparr>)"
      by (simp add: db_commit_def put_user_def log_call_def)
    then show ?thesis by blast
  qed
qed
text \<open>
  C2 fails on the code for CreateUser.  An admin posts the body \<open>{"foo": 1}\<close> for a new
  name: the request is refused with 400 "Invalid JSON keys", but the row that
  \<open>user_from_username\<close> added before the check is still in the database, and the
  authenticator was never asked to add the user.
\<close>

theorem create_user_invalid_payload_keeps_record:
  "UserAPIHandler_post (sample_request\<lparr>json_body := JDict [(''foo'', JInt 1)]\<rparr>) ''carol'' sample_hub
     = (Inl (HTTPError 400 (InvalidJSONKeys (JDict [(''foo'', JInt 1)]))),
        \<lparr>db = [root_user, alice, bob, new_user sample_request ''carol''],
         calls = [DbAdd ''carol'', DbCommit]\<rparr>) \<and>
   find_user ''carol'' sample_hub = None \<and>
   find_user ''carol''
     (snd (UserAPIHandler_post (sample_request\<lparr>json_body := JDict [(''foo'', JInt 1)]\<rparr>) ''carol''
             sample_hub)) = Some 3"
  by (simp add: handler_defs hub_defs sample_defs)

lemma post_fields_no_admin:
  assumes "\<not> truthy data \<or> check_user_model data = Inr ()"
    and "\<forall>kvs. data = JDict kvs \<longrightarrow> map_of kvs ''admin'' = None"
  shows "post_fields data i s = Inr s"
proof (cases "truthy data")
  case False
  then show ?thesis by (rule post_fields_falsy)
next
  case True
  with assms(1) have ok: "check_user_model data = Inr ()" by simp
  then obtain kvs where kvs: "data = JDict kvs"
    using check_user_model_InrD by blast
  with assms(2) have "map_of kvs ''admin'' = None" by simp
  with True ok kvs show ?thesis
    using post_fields_dict [of kvs i s] by simp
qed

lemma post_fields_admin:
  assumes "check_user_model (JDict kvs) = Inr ()" and "map_of kvs ''admin'' = Some (JBool b)"
  shows "post_fields (JDict kvs) i s =
           Inr (s\<lparr>db := (db s)[i := (db s ! i)\<lparr>admin := b\<rparr>], calls := calls s @ [DbCommit]\<rparr>)"
proof -
  from assms(2) have "kvs \<noteq> []" by auto
  then have "truthy (JDict kvs)" by simp
  from post_fields_dict [OF this assms(1), of i s] assms(2)
  show ?thesis
    by (simp add: setattr_user_admin db_commit_def put_user_def log_call_def)
qed

text \<open>
  C9, as the spec words it, fails: line 93 is \<open>except Exception\<close>, and an exception
  that is not an \<open>Exception\<close> is not caught.  When \<open>authenticator.add_user\<close> raises
  \<open>KeyboardInterrupt\<close> the exception leaves the handler, nothing is logged, and the
  new record stays in the database.
\<close>

theorem add_user_base_exception_escapes:
  "UserAPIHandler_post
     (sample_request\<lparr>add_user := (\<lambda>u. Some (BaseException ''KeyboardInterrupt''))\<rparr>)
     ''carol'' sample_hub
   = (Inl (Uncaught ''KeyboardInterrupt''),
      \<lparr>db = [root_user, alice, bob, new_user sample_request ''carol''],
       calls = [DbAdd ''carol'', DbCommit, AddUser ''carol'']\<rparr>)"
  by (simp add: handler_defs hub_defs sample_defs)

text \<open>
  C9, amended.  CreateUser by an admin for a name that is not taken, with a payload that
  passes.  When \<open>authenticator.add_user\<close> raises an instance of \<open>Exception\<close>,
  whichever it is, for the record it is given (the new record, with the admin flag of
  the payload if the payload has one), the exception does not leave the handler: the
  request fails with 400 "Failed to create user", the rows are exactly those from
  before the request, and the calls made end with the failed \<open>add_user\<close>, the error
  log, \<open>db.delete\<close> of the new record and \<open>db.commit\<close>.
\<close>

theorem provisioning_failure_rolls_back:
  assumes "current_user h = Some c" and "admin c" and "find_user n s = None"
  shows "(\<forall>x. (\<not> truthy (json_body h) \<or> check_user_model (json_body h) = Inr ()) \<and>
              (\<forall>kvs. json_body h = JDict kvs \<longrightarrow> map_of kvs ''admin'' = None) \<and>
              add_user h (new_user h n) = Some (Exception x) \<longrightarrow>
            UserAPIHandler_post h n s =
              (Inl (HTTPError 400 (FailedToCreate n)),
               s\<lparr>calls := calls s @ [DbAdd n, DbCommit,
                                     AddUser n, LogError n, DbDelete n, DbCommit]\<rparr>)) \<and>
         (\<forall>kvs b x. json_body h = JDict kvs \<and> check_user_model (JDict kvs) = Inr () \<and>
              map_of kvs ''admin'' = Some (JBool b) \<and>
              add_user h ((new_user h n)\<lparr>admin := b\<rparr>) = Some (Exception x) \<longrightarrow>
            UserAPIHandler_post h n s =
              (Inl (HTTPError 400 (FailedToCreate n)),
               s\<lparr>calls := calls s @ [DbAdd n, DbCommit, DbCommit,
                                     AddUser n, LogError n, DbDelete n, DbCommit]\<rparr>))"
proof -
  let ?s1 = "s\<lparr>db := db s @ [new_user h n], calls := calls s @ [DbAdd n, DbCommit]\<rparr>"
  let ?i = "length (db s)"
  have post: "UserAPIHandler_post h n s =
      (case post_fields (json_body h) ?i ?s1 of
         Inl e \<Rightarrow> (Inl e, ?s1)
       | Inr s2 \<Rightarrow> post_provision h n ?i s2)"
    using assms(3)
    by (simp add: post_authorized [OF assms(1,2)] post_undecorated_def user_from_username_new)
  have nm: "name (new_user h n) = n" by (simp add: new_user_def)
  have first: "UserAPIHandler_post h n s =
              (Inl (HTTPError 400 (FailedToCreate n)),
               s\<lparr>calls := calls s @ [DbAdd n, DbCommit,
                                     AddUser n, LogError n, DbDelete n, DbCommit]\<rparr>)"
    if passes: "\<not> truthy (json_body h) \<or> check_user_model (json_body h) = Inr ()"
      and plain: "\<forall>kvs. json_body h = JDict kvs \<longrightarrow> map_of kvs ''admin'' = None"
      and fails: "add_user h (new_user h n) = Some (Exception x)" for x
  proof -
    from post post_fields_no_admin [OF passes plain, of ?i ?s1]
    have "UserAPIHandler_post h n s = post_provision h n ?i ?s1" by simp
    also have "\<dots> = (Inl (HTTPError 400 (FailedToCreate n)),
        ?s1\<lparr>db := db s,
             calls := calls ?s1 @ [AddUser n, LogError n, DbDelete n, DbCommit]\<rparr>)"
      using fails nm by (subst post_provision_new [where xs = "db s" and u = "new_user h n"]) auto
    finally show ?thesis by simp
  qed
  have second: "UserAPIHandler_post h n s =
              (Inl (HTTPError 400 (FailedToCreate n)),
               s\<lparr>calls := calls s @ [DbAdd n, DbCommit, DbCommit,
                                     AddUser n, LogError n, DbDelete n, DbCommit]\<rparr>)"
    if body: "json_body h = JDict kvs" and ok: "check_user_model (JDict kvs) = Inr ()"
      and flag: "map_of kvs ''admin'' = Some (JBool b)"
      and fails: "add_user h ((new_user h n)\<lparr>admin := b\<rparr>) = Some (Exception x)" for kvs b x
  proof -
    let ?u = "(new_user h n)\<lparr>admin := b\<rparr>"
    let ?s2 = "s\<lparr>db := db s @ [?u], calls := calls s @ [DbAdd n, DbCommit, DbCommit]\<rparr>"
    have nmu: "name ?u = n" by (simp add: new_user_def)
    have "post_fields (json_body h) ?i ?s1 = Inr ?s2"
      unfolding body by (subst post_fields_admin [OF ok flag]) simp
    with post have "UserAPIHandler_post h n s = post_provision h n ?i ?s2" by simp
    also have "\<dots> = (Inl (HTTPError 400 (FailedToCreate n)),
        ?s2\<lparr>db := db s,
             calls := calls ?s2 @ [AddUser n, LogError n, DbDelete n, DbCommit]\<rparr>)"
      using fails nmu by (subst post_provision_new [where xs = "db s" and u = ?u]) auto
    finally show ?thesis by simp
  qed
  from first second show ?thesis by blast
qed

theorem provisioning_failure_rolls_back_witness:
  "UserAPIHandler_post (sample_request\<lparr>add_user := (\<lambda>u. Some (Exception ''ValueError''))\<rparr>)
     ''carol'' sample_hub
   = (Inl (HTTPError 400 (FailedToCreate ''carol'')),
      \<lparr>db = [root_user, alice, bob],
       calls = [DbAdd ''carol'', DbCommit,
                AddUser ''carol'', LogError ''carol'', DbDelete ''carol'', DbCommit]\<rparr>) \<and>
   UserAPIHandler_post
     (sample_request\<lparr>json_body := JDict [(''admin'', JBool True)],
                     add_user := (\<lambda>u. if admin u then Some (Exception ''OSError'') else None)\<rparr>)
     ''carol'' sample_hub
   = (Inl (HTTPError 400 (FailedToCreate ''carol'')),
      \<lparr>db = [root_user, alice, bob],
       calls = [DbAdd ''carol'', DbCommit, DbCommit,
                AddUser ''carol'', LogError ''carol'', DbDelete ''carol'', DbCommit]\<rparr>)"
proof -
  let ?h1 = "sample_request\<lparr>add_user := (\<lambda>u. Some (Exception ''ValueError''))\<rparr>"
  let ?h2 = "sample_request\<lparr>json_body := JDict [(''admin'', JBool True)],
                     add_user := (\<lambda>u. if admin u then Some (Exception ''OSError'') else None)\<rparr>"
  have pre1: "current_user ?h1 = Some root_user" "admin root_user"
    "find_user ''carol'' sample_hub = None"
    by (simp_all add: sample_defs find_user_def)
  have pre2: "current_user ?h2 = Some root_user"
    by (simp add: sample_defs)
  have a: "UserAPIHandler_post ?h1 ''carol'' sample_hub
     = (Inl (HTTPError 400 (FailedToCreate ''carol'')),
        sample_hub\<lparr>calls := calls sample_hub @ [DbAdd ''carol'', DbCommit,
                AddUser ''carol'', LogError ''carol'', DbDelete ''carol'', DbCommit]\<rparr>)"
    using provisioning_failure_rolls_back [OF pre1]
    by (simp add: sample_request_def)
  have b: "UserAPIHandler_post ?h2 ''carol'' sample_hub
     = (Inl (HTTPError 400 (FailedToCreate ''carol'')),
        sample_hub\<lparr>calls := calls sample_hub @ [DbAdd ''carol'', DbCommit, DbCommit,
                AddUser ''carol'', LogError ''carol'', DbDelete ''carol'', DbCommit]\<rparr>)"
    using provisioning_failure_rolls_back [OF pre2 pre1(2,3)]
    by (auto simp add: sample_request_def new_user_def check_user_model_def model_types_def)
  from a b show ?thesis by (simp add: sample_hub_def)
qed

section \<open>Names of records\<close>

lemma name_setattr_other: "key \<noteq> ''name'' \<Longrightarrow> name (setattr_user u key v) = name u"
  by (simp add: setattr_user_def split: json.splits)

lemma name_foldl_setattr:
  "''name'' \<notin> fst ` set kvs \<Longrightarrow>
   name (foldl (\<lambda>u (key, v). setattr_user u key v) u kvs) = name u"
proof (induction kvs arbitrary: u)
  case Nil
  then show ?case by simp
next
  case (Cons kv kvs)
  obtain k v where kv: "kv = (k, v)" by (cases kv)
  with Cons.prems have "k \<noteq> ''name''" and "''name'' \<notin> fst ` set kvs" by auto
  then show ?case using Cons.IH [of "setattr_user u k v"] kv
    by (simp add: name_setattr_other)
qed

lemma name_foldl_setattr_renamed:
  "distinct (map fst kvs) \<Longrightarrow> (''name'', JStr x) \<in> set kvs \<Longrightarrow>
   name (foldl (\<lambda>u (key, v). setattr_user u key v) u kvs) = x"
proof (induction kvs arbitrary: u)
  case Nil
  then show ?case by simp
next
  case (Cons kv kvs)
  obtain k v where kv: "kv = (k, v)" by (cases kv)
  show ?case
  proof (cases "k = ''name''")
    case True
    with Cons.prems kv have v: "v = JStr x" and rest: "''name'' \<notin> fst ` set kvs"
      by (auto simp: image_iff)
    have "name (setattr_user u ''name'' (JStr x)) = x" by (simp add: setattr_user_def)
    with True v kv name_foldl_setattr [OF rest, of "setattr_user u ''name'' (JStr x)"]
    show ?thesis by simp
  next
    case False
    with Cons.prems kv have "(''name'', JStr x) \<in> set kvs" "distinct (map fst kvs)" by auto
    with Cons.IH [of "setattr_user u k v"] kv show ?thesis by simp
  qed
qed

lemma names_list_update:
  assumes "name u = name (xs ! i)"
  shows "map name (xs[i := u]) = map name xs"
proof (cases "i < length xs")
  case True
  have "(map name xs)[i := (map name xs) ! i] = map name xs" by (rule list_update_id)
  with True assms show ?thesis by (simp add: map_update)
next
  case False
  then have "length xs \<le> i" by arith
  then have "xs[i := u] = xs" by (rule list_update_beyond)
  then show ?thesis by (rule arg_cong)
qed

lemma get_names: "snd (UserAPIHandler_get h n s) = s"
  by (simp add: UserAPIHandler_get_def admin_or_self_def get_undecorated_def
      split: option.splits)

lemma list_names: "snd (UserListAPIHandler_get h s) = s"
  by (simp add: UserListAPIHandler_get_def admin_only_def split: option.splits)

lemma admin_access_names: "db (snd (UserAdminAccessAPIHandler_post h n s)) = db s"
  by (simp add: UserAdminAccessAPIHandler_post_def admin_only_def
      admin_access_post_undecorated_def log_call_def find_user_def Let_def
      split: option.splits)

lemma server_post_names:
  assumes "\<forall>u. name (spawn_single_user h u) = name u"
  shows "map name (db (snd (UserServerAPIHandler_post h n s))) = map name (db s)"
  using assms
  by (simp add: UserServerAPIHandler_post_def admin_or_self_def server_post_undecorated_def
      spawn_and_report_def log_call_def put_user_def Let_def names_list_update
      split: option.splits)

lemma server_delete_names:
  assumes "\<forall>u. name (stop_single_user h u) = name u"
  shows "map name (db (snd (UserServerAPIHandler_delete h n s))) = map name (db s)"
  using assms
  by (simp add: UserServerAPIHandler_delete_def admin_or_self_def server_delete_undecorated_def
      log_call_def put_user_def Let_def names_list_update
      split: option.splits)
lemma delete_names:
  assumes "\<forall>u. name (stop_single_user h u) = name u"
  shows "map name (db (snd (UserAPIHandler_delete h n s))) = map name (db s) \<or>
         (\<exists>i < length (db s). name (db s ! i) = n \<and>
            map name (db (snd (UserAPIHandler_delete h n s))) =
              take i (map name (db s)) @ drop (Suc i) (map name (db s)))"
proof (cases "\<exists>c. current_user h = Some c \<and> admin c")
  case False
  then have "UserAPIHandler_delete h n s = (Inl (HTTPError 403 NoMessage), s)"
    unfolding UserAPIHandler_delete_def by (intro admin_only_deny) (cases "current_user h", auto)
  then show ?thesis by simp
next
  case True
  then obtain c where c: "current_user h = Some c" "admin c" by blast
  note eq = delete_authorized [OF c]
  show ?thesis
  proof (cases "find_user n s")
    case None
    then show ?thesis unfolding eq by (simp add: delete_undecorated_def)
  next
    case (Some i)
    note at = find_user_SomeD [OF Some]
    let ?u = "stop_single_user h (db s ! i)"
    have removed: "map name (take i (db s) @ drop (Suc i) (db s)) =
        take i (map name (db s)) @ drop (Suc i) (map name (db s))"
      by (simp add: take_map drop_map)
    have kept: "map name ((db s)[i := ?u]) = map name (db s)"
      using assms by (simp add: names_list_update)
    consider (self) "name c = n"
      | (busy) "name c \<noteq> n" "stop_pending (db s ! i)"
      | (none) "name c \<noteq> n" "\<not> stop_pending (db s ! i)" "spawner (db s ! i) = None"
      | (still) sp where "name c \<noteq> n" "\<not> stop_pending (db s ! i)"
          "spawner (db s ! i) = Some sp" "stop_pending ?u"
      | (stopped) sp where "name c \<noteq> n" "\<not> stop_pending (db s ! i)"
          "spawner (db s ! i) = Some sp" "\<not> stop_pending ?u"
      by (cases "spawner (db s ! i)") auto
    then show ?thesis
    proof cases
      case self
      then show ?thesis unfolding eq using delete_self [OF c(1) Some] by simp
    next
      case busy
      then show ?thesis unfolding eq using delete_stop_pending [OF c(1) Some] by simp
    next
      case none
      show ?thesis
      proof (cases "delete_user h (db s ! i)")
        case None
        from delete_no_server [OF c(1) Some none None] removed at
        show ?thesis unfolding eq by auto
      next
        case (Some x)
        from delete_no_server_raises [OF c(1) \<open>find_user n s = Some i\<close> none Some]
        show ?thesis unfolding eq by simp
      qed
    next
      case still
      from delete_still_stopping [OF c(1) Some still] kept
      show ?thesis unfolding eq by simp
    next
      case stopped
      show ?thesis
      proof (cases "delete_user h ?u")
        case None
        from delete_after_stop [OF c(1) Some stopped None] removed at
        show ?thesis unfolding eq by auto
      next
        case (Some x)
        from delete_after_stop_raises [OF c(1) \<open>find_user n s = Some i\<close> stopped Some] kept
        show ?thesis unfolding eq by simp
      qed
    qed
  qed
qed

lemma post_fields_names:
  assumes "post_fields data i s = Inr s2"
  shows "map name (db s2) = map name (db s)"
proof (cases "truthy data")
  case False
  with assms show ?thesis by (simp add: post_fields_def)
next
  case True
  with assms obtain kvs where kvs: "data = JDict kvs"
    by (cases data) (auto simp: post_fields_def split: sum.splits)
  show ?thesis
  proof (cases "map_of kvs ''admin''")
    case None
    with assms True kvs show ?thesis
      by (auto simp: post_fields_def split: sum.splits)
  next
    case (Some v)
    have "name (setattr_user (db s ! i) ''admin'' v) = name (db s ! i)"
      by (simp add: name_setattr_other)
    then have "map name ((db s)[i := setattr_user (db s ! i) ''admin'' v]) = map name (db s)"
      by (rule names_list_update)
    with assms True kvs Some show ?thesis
      by (auto simp: post_fields_def db_commit_def put_user_def log_call_def split: sum.splits)
  qed
qed

lemma post_provision_names:
  "map name (db (snd (post_provision h n i s))) = map name (db s) \<or>
   map name (db (snd (post_provision h n i s))) =
     take i (map name (db s)) @ drop (Suc i) (map name (db s))"
  by (simp add: post_provision_def hub_defs Let_def take_map drop_map
      split: option.splits exn.splits)

lemma post_names:
  "map name (db (snd (UserAPIHandler_post h n s))) = map name (db s) \<or>
   map name (db (snd (UserAPIHandler_post h n s))) = map name (db s) @ [n]"
proof (cases "\<exists>c. current_user h = Some c \<and> admin c")
  case False
  then have "UserAPIHandler_post h n s = (Inl (HTTPError 403 NoMessage), s)"
    unfolding UserAPIHandler_post_def by (intro admin_only_deny) (cases "current_user h", auto)
  then show ?thesis by simp
next
  case True
  then obtain c where c: "current_user h = Some c" "admin c" by blast
  note eq = post_authorized [OF c]
  show ?thesis
  proof (cases "find_user n s")
    case (Some j)
    then show ?thesis unfolding eq by (simp add: post_undecorated_def)
  next
    case None
    let ?s1 = "s\<lparr>db := db s @ [new_user h n], calls := calls s @ [DbAdd n, DbCommit]\<rparr>"
    let ?i = "length (db s)"
    have s1: "map name (db ?s1) = map name (db s) @ [n]" by (simp add: new_user_def)
    have post: "post_undecorated h n s =
      (case post_fields (json_body h) ?i ?s1 of
         Inl e \<Rightarrow> (Inl e, ?s1)
       | Inr s2 \<Rightarrow> post_provision h n ?i s2)"
      using None by (simp add: post_undecorated_def user_from_username_new)
    show ?thesis
    proof (cases "post_fields (json_body h) ?i ?s1")
      case (Inl e)
      with post s1 show ?thesis unfolding eq by simp
    next
      case (Inr s2)
      from post_fields_names [OF Inr] s1
      have s2: "map name (db s2) = map name (db s) @ [n]" by simp
      from post Inr have "post_undecorated h n s = post_provision h n ?i s2" by simp
      with post_provision_names [of h n ?i s2] s2
      show ?thesis unfolding eq by auto
    qed
  qed
qed

lemma patch_failure_unchanged:
  "fst (UserAPIHandler_patch h n s) = Inl e \<Longrightarrow> snd (UserAPIHandler_patch h n s) = s"
  by (auto simp: UserAPIHandler_patch_def admin_only_def patch_undecorated_def Let_def
      split: option.splits sum.splits json.splits if_splits)

lemma patch_success:
  assumes "fst (UserAPIHandler_patch h n s) = Inr r" "json_body h = JDict kvs"
  shows "\<exists>i. find_user n s = Some i \<and>
             db (snd (UserAPIHandler_patch h n s)) =
               (db s)[i := foldl (\<lambda>u (key, v). setattr_user u key v) (db s ! i) kvs]"
  using assms
  by (auto simp: UserAPIHandler_patch_def admin_only_def patch_undecorated_def Let_def
      db_commit_def put_user_def log_call_def
      split: option.splits sum.splits if_splits)

lemma patch_names_kept:
  assumes "json_body h = JDict kvs" "''name'' \<notin> fst ` set kvs"
  shows "map name (db (snd (UserAPIHandler_patch h n s))) = map name (db s)"
proof (cases "fst (UserAPIHandler_patch h n s)")
  case (Inl e)
  then show ?thesis by (simp add: patch_failure_unchanged)
next
  case (Inr r)
  from patch_success [OF Inr assms(1)] obtain i where
    "db (snd (UserAPIHandler_patch h n s)) =
       (db s)[i := foldl (\<lambda>u (key, v). setattr_user u key v) (db s ! i) kvs]" by blast
  then show ?thesis
    using name_foldl_setattr [OF assms(2), of "db s ! i"] by (simp add: names_list_update)
qed

lemma patch_names_renamed:
  assumes "json_body h = JDict kvs" "distinct (map fst kvs)" "(''name'', JStr x) \<in> set kvs"
    "fst (UserAPIHandler_patch h n s) = Inr r" "find_user n s = Some i"
  shows "map name (db (snd (UserAPIHandler_patch h n s))) = (map name (db s))[i := x]"
proof -
  from patch_success [OF assms(4,1)] assms(5)
  have "db (snd (UserAPIHandler_patch h n s)) =
       (db s)[i := foldl (\<lambda>u (key, v). setattr_user u key v) (db s ! i) kvs]" by simp
  then show ?thesis
    using name_foldl_setattr_renamed [OF assms(2,3), of "db s ! i"] by (simp add: map_update)
qed
text \<open>
  C3, as the spec words it, fails: \<open>name\<close> is one of the two keys of \<open>_model_types\<close>,
  and \<open>patch\<close> assigns every key of a validated payload.  An admin who patches bob
  with \<open>{"name": "robert"}\<close> gets 200 and the record is renamed.
\<close>

theorem update_user_renames:
  "fst (UserAPIHandler_patch (sample_request\<lparr>json_body := JDict [(''name'', JStr ''robert'')]\<rparr>)
          ''bob'' sample_hub)
     = Inr \<lparr>status = 200, written = Model (user_model (bob\<lparr>name := ''robert''\<rparr>))\<rparr> \<and>
   map name (db sample_hub) = [''root'', ''alice'', ''bob''] \<and>
   map name (db (snd (UserAPIHandler_patch
                        (sample_request\<lparr>json_body := JDict [(''name'', JStr ''robert'')]\<rparr>)
                        ''bob'' sample_hub)))
     = [''root'', ''alice'', ''robert'']"
  by (simp add: handler_defs hub_defs sample_defs)

text \<open>
  C3, amended.  The name of a record is changed by UpdateUser with a \<open>name\<close> key and by
  nothing else.  An UpdateUser that succeeds with a payload holding \<open>name: x\<close> leaves
  the target named \<open>x\<close>; an UpdateUser whose payload has no \<open>name\<close> key leaves every
  name as it was, and one that fails leaves the whole hub as it was.  Listing, GetUser,
  SpawnServer, StopServer and GrantAdminAccess leave the names of all rows as they
  were; CreateUser at most appends a row with the new name; DeleteUser at most removes
  the row of the target.  The spawn and stop methods of the base handler are not part
  of this file and are taken not to assign names.
\<close>

theorem names_change_only_by_update:
  assumes "\<forall>u. name (spawn_single_user h u) = name u"
    and "\<forall>u. name (stop_single_user h u) = name u"
  shows "map name (db (snd (UserListAPIHandler_get h s))) = map name (db s) \<and>
         map name (db (snd (UserAPIHandler_get h n s))) = map name (db s) \<and>
         map name (db (snd (UserServerAPIHandler_post h n s))) = map name (db s) \<and>
         map name (db (snd (UserServerAPIHandler_delete h n s))) = map name (db s) \<and>
         map name (db (snd (UserAdminAccessAPIHandler_post h n s))) = map name (db s) \<and>
         (map name (db (snd (UserAPIHandler_post h n s))) = map name (db s) \<or>
          map name (db (snd (UserAPIHandler_post h n s))) = map name (db s) @ [n]) \<and>
         (map name (db (snd (UserAPIHandler_delete h n s))) = map name (db s) \<or>
          (\<exists>i < length (db s). name (db s ! i) = n \<and>
             map name (db (snd (UserAPIHandler_delete h n s))) =
               take i (map name (db s)) @ drop (Suc i) (map name (db s)))) \<and>
         (\<forall>e. fst (UserAPIHandler_patch h n s) = Inl e \<longrightarrow>
              snd (UserAPIHandler_patch h n s) = s) \<and>
         (\<forall>kvs. json_body h = JDict kvs \<and> ''name'' \<notin> fst ` set kvs \<longrightarrow>
              map name (db (snd (UserAPIHandler_patch h n s))) = map name (db s)) \<and>
         (\<forall>kvs x r i. json_body h = JDict kvs \<and> distinct (map fst kvs) \<and>
              (''name'', JStr x) \<in> set kvs \<and>
              fst (UserAPIHandler_patch h n s) = Inr r \<and> find_user n s = Some i \<longrightarrow>
              map name (db (snd (UserAPIHandler_patch h n s))) = (map name (db s))[i := x])"
proof -
  have a: "map name (db (snd (UserListAPIHandler_get h s))) = map name (db s)"
    by (simp add: list_names)
  have b: "map name (db (snd (UserAPIHandler_get h n s))) = map name (db s)"
    by (simp add: get_names)
  have c: "map name (db (snd (UserAdminAccessAPIHandler_post h n s))) = map name (db s)"
    by (simp add: admin_access_names)
  note d = server_post_names [OF assms(1), of n s]
  note e = server_delete_names [OF assms(2), of n s]
  note f = post_names [of h n s]
  note g = delete_names [OF assms(2), of n s]
  have i: "\<forall>e. fst (UserAPIHandler_patch h n s) = Inl e \<longrightarrow>
              snd (UserAPIHandler_patch h n s) = s"
    using patch_failure_unchanged by blast
  have j: "\<forall>kvs. json_body h = JDict kvs \<and> ''name'' \<notin> fst ` set kvs \<longrightarrow>
              map name (db (snd (UserAPIHandler_patch h n s))) = map name (db s)"
    using patch_names_kept by blast
  have k: "\<forall>kvs x r i. json_body h = JDict kvs \<and> distinct (map fst kvs) \<and>
              (''name'', JStr x) \<in> set kvs \<and>
              fst (UserAPIHandler_patch h n s) = Inr r \<and> find_user n s = Some i \<longrightarrow>
              map name (db (snd (UserAPIHandler_patch h n s))) = (map name (db s))[i := x]"
    using patch_names_renamed by blast
  show ?thesis
    apply (intro conjI)
    apply (rule a)
    apply (rule b)
    apply (rule d)
    apply (rule e)
    apply (rule c)
    apply (rule f)
    apply (rule g)
    apply (rule i)
    apply (rule j)
    apply (rule k)
    done
qed

theorem names_change_only_by_update_witness:
  "map name (db (snd (UserServerAPIHandler_post sample_request ''bob'' sample_hub)))
     = [''root'', ''alice'', ''bob''] \<and>
   map name (db (snd (UserAPIHandler_post sample_request ''carol'' sample_hub)))
     = [''root'', ''alice'', ''bob'', ''carol''] \<and>
   map name (db (snd (UserAPIHandler_delete sample_request ''alice'' sample_hub)))
     = [''root'', ''bob''] \<and>
   snd (UserAPIHandler_patch (sample_request\<lparr>json_body := JDict [(''nick'', JStr ''al'')]\<rparr>)
          ''alice'' sample_hub) = sample_hub \<and>
   map name (db (snd (UserAPIHandler_patch
                        (sample_request\<lparr>json_body := JDict [(''admin'', JBool True)]\<rparr>)
                        ''alice'' sample_hub)))
     = [''root'', ''alice'', ''bob''] \<and>
   map name (db (snd (UserAPIHandler_patch
                        (sample_request\<lparr>json_body := JDict [(''name'', JStr ''alicia'')]\<rparr>)
                        ''alice'' sample_hub)))
     = [''root'', ''alicia'', ''bob'']"
proof -
  let ?h1 = "sample_request\<lparr>json_body := JDict [(''nick'', JStr ''al'')]\<rparr>"
  let ?h2 = "sample_request\<lparr>json_body := JDict [(''admin'', JBool True)]\<rparr>"
  let ?h3 = "sample_request\<lparr>json_body := JDict [(''name'', JStr ''alicia'')]\<rparr>"
  have pre: "\<forall>u. name (spawn_single_user sample_request u) = name u"
    "\<forall>u. name (stop_single_user sample_request u) = name u"
    "\<forall>u. name (spawn_single_user ?h1 u) = name u" "\<forall>u. name (stop_single_user ?h1 u) = name u"
    "\<forall>u. name (spawn_single_user ?h2 u) = name u" "\<forall>u. name (stop_single_user ?h2 u) = name u"
    "\<forall>u. name (spawn_single_user ?h3 u) = name u" "\<forall>u. name (stop_single_user ?h3 u) = name u"
    by (simp_all add: sample_request_def)
  have names: "map name (db sample_hub) = [''root'', ''alice'', ''bob'']"
    by (simp add: sample_defs)
  have a: "map name (db (snd (UserServerAPIHandler_post sample_request ''bob'' sample_hub)))
     = [''root'', ''alice'', ''bob'']"
    using names_change_only_by_update [OF pre(1,2), of sample_hub "''bob''"] names by simp
  have created: "fst (UserAPIHandler_post sample_request ''carol'' sample_hub)
      = Inr \<lparr>status = 201, written = Model (user_model (new_user sample_request ''carol''))\<rparr>"
    "length (db (snd (UserAPIHandler_post sample_request ''carol'' sample_hub))) = 4"
    by (simp_all add: handler_defs hub_defs sample_defs)
  have b: "map name (db (snd (UserAPIHandler_post sample_request ''carol'' sample_hub)))
     = [''root'', ''alice'', ''bob'', ''carol'']"
  proof -
    from names_change_only_by_update [OF pre(1,2), of sample_hub "''carol''"] names
    have "map name (db (snd (UserAPIHandler_post sample_request ''carol'' sample_hub)))
            = [''root'', ''alice'', ''bob''] \<or>
          map name (db (snd (UserAPIHandler_post sample_request ''carol'' sample_hub)))
            = [''root'', ''alice'', ''bob'', ''carol'']"
      by simp
    moreover have "length (map name (db (snd (UserAPIHandler_post sample_request ''carol''
        sample_hub)))) = 4"
      using created(2) by simp
    ultimately show ?thesis by auto
  qed
  have c: "map name (db (snd (UserAPIHandler_delete sample_request ''alice'' sample_hub)))
     = [''root'', ''bob'']"
    by (simp add: handler_defs hub_defs sample_defs)
  have failed: "fst (UserAPIHandler_patch ?h1 ''alice'' sample_hub)
      = Inl (HTTPError 400 (InvalidJSONKeys (JDict [(''nick'', JStr ''al'')])))"
    by (simp add: handler_defs hub_defs sample_defs)
  have d: "snd (UserAPIHandler_patch ?h1 ''alice'' sample_hub) = sample_hub"
    using names_change_only_by_update [OF pre(3,4), of sample_hub "''alice''"] failed by simp
  have e: "map name (db (snd (UserAPIHandler_patch ?h2 ''alice'' sample_hub)))
     = [''root'', ''alice'', ''bob'']"
    using names_change_only_by_update [OF pre(5,6), of sample_hub "''alice''"] names
    by (simp add: sample_request_def)
  have ok: "fst (UserAPIHandler_patch ?h3 ''alice'' sample_hub)
      = Inr \<lparr>status = 200, written = Model (user_model (alice\<lparr>name := ''alicia''\<rparr>))\<rparr>"
    "find_user ''alice'' sample_hub = Some 1"
    by (simp_all add: handler_defs hub_defs sample_defs)
  have f: "map name (db (snd (UserAPIHandler_patch ?h3 ''alice'' sample_hub)))
     = [''root'', ''alicia'', ''bob'']"
    using names_change_only_by_update [OF pre(7,8), of sample_hub "''alice''"] names ok
    by (simp add: sample_request_def)
  from a b c d e f show ?thesis by simp
qed

section \<open>Further properties of section 8 of the spec\<close>

lemma check_items_not_exists: "check_items kvs \<noteq> Inl (HTTPError 400 (AlreadyExists n))"
  by (induction kvs) (auto split: option.splits if_splits)

lemma check_user_model_not_exists:
  "check_user_model data \<noteq> Inl (HTTPError 400 (AlreadyExists n))"
  by (cases data) (simp_all add: check_user_model_def check_items_not_exists)

lemma post_fields_not_exists:
  "post_fields data i s \<noteq> Inl (HTTPError 400 (AlreadyExists n))"
  using check_user_model_not_exists [of data n]
  by (auto simp: post_fields_def split: sum.splits json.splits option.splits)

lemma post_provision_not_exists:
  "fst (post_provision h n i s) \<noteq> Inl (HTTPError 400 (AlreadyExists m))"
  by (simp add: post_provision_def Let_def split: option.splits exn.splits)

text \<open>
  CreateUser by an admin is refused with 400 "User already exists" exactly when a
  record with that name exists, whatever the payload and the state of the hub; the
  refusal leaves the hub as it was.
\<close>

theorem create_user_conflict_iff_exists:
  assumes "current_user h = Some c" and "admin c"
  shows "(fst (UserAPIHandler_post h n s) = Inl (HTTPError 400 (AlreadyExists n))
            \<longleftrightarrow> find_user n s \<noteq> None) \<and>
         (find_user n s \<noteq> None \<longrightarrow> snd (UserAPIHandler_post h n s) = s)"
proof (cases "find_user n s")
  case (Some j)
  then show ?thesis
    by (simp add: post_authorized [OF assms] post_undecorated_def)
next
  case None
  let ?s1 = "s\<lparr>db := db s @ [new_user h n], calls := calls s @ [DbAdd n, DbCommit]\<rparr>"
  have post: "UserAPIHandler_post h n s =
      (case post_fields (json_body h) (length (db s)) ?s1 of
         Inl e \<Rightarrow> (Inl e, ?s1)
       | Inr s2 \<Rightarrow> post_provision h n (length (db s)) s2)"
    using None
    by (simp add: post_authorized [OF assms] post_undecorated_def user_from_username_new)
  have "fst (UserAPIHandler_post h n s) \<noteq> Inl (HTTPError 400 (AlreadyExists n))"
  proof (cases "post_fields (json_body h) (length (db s)) ?s1")
    case (Inl e)
    with post post_fields_not_exists [of "json_body h" "length (db s)" ?s1 n]
    show ?thesis by simp
  next
    case (Inr s2)
    with post post_provision_not_exists [of h n "length (db s)" s2 n]
    show ?thesis by simp
  qed
  with None show ?thesis by simp
qed

theorem create_user_conflict_iff_exists_witness:
  "UserAPIHandler_post sample_request ''alice'' sample_hub
     = (Inl (HTTPError 400 (AlreadyExists ''alice'')), sample_hub) \<and>
   fst (UserAPIHandler_post sample_request ''carol'' sample_hub)
     \<noteq> Inl (HTTPError 400 (AlreadyExists ''carol''))"
proof -
  have pre: "current_user sample_request = Some root_user" "admin root_user"
    by (simp_all add: sample_defs)
  have a: "find_user ''alice'' sample_hub \<noteq> None" "find_user ''carol'' sample_hub = None"
    by (simp_all add: sample_defs find_user_def)
  from create_user_conflict_iff_exists [OF pre, of "''alice''" sample_hub] a(1)
  have "fst (UserAPIHandler_post sample_request ''alice'' sample_hub)
          = Inl (HTTPError 400 (AlreadyExists ''alice''))"
    "snd (UserAPIHandler_post sample_request ''alice'' sample_hub) = sample_hub"
    by simp_all
  then have b: "UserAPIHandler_post sample_request ''alice'' sample_hub
     = (Inl (HTTPError 400 (AlreadyExists ''alice'')), sample_hub)"
    by (simp add: prod_eq_iff)
  from create_user_conflict_iff_exists [OF pre, of "''carol''" sample_hub] a(2)
  have c: "fst (UserAPIHandler_post sample_request ''carol'' sample_hub)
     \<noteq> Inl (HTTPError 400 (AlreadyExists ''carol''))"
    by simp
  from b c show ?thesis by simp
qed

text \<open>
  UpdateUser by an admin on an existing user with a payload that is a mapping holding a
  key other than \<open>name\<close> and \<open>admin\<close> is refused with 400 "Invalid JSON keys", and
  the hub, rows and calls, is as it was.
\<close>

theorem update_user_unknown_key_no_mutation:
  assumes "current_user h = Some c" and "admin c" and "find_user n s = Some i"
    and "json_body h = JDict kvs" and "(k, v) \<in> set kvs" and "k \<noteq> ''name''" and "k \<noteq> ''admin''"
  shows "UserAPIHandler_patch h n s = (Inl (HTTPError 400 (InvalidJSONKeys (JDict kvs))), s)"
proof -
  from assms(5,6,7) have "\<not> fst ` set kvs \<subseteq> {''name'', ''admin''}" by force
  then have "check_user_model (json_body h) = Inl (HTTPError 400 (InvalidJSONKeys (JDict kvs)))"
    unfolding assms(4) by (rule check_bad_keys)
  with assms(3) show ?thesis
    by (simp add: patch_authorized [OF assms(1,2)] patch_invalid_unchanged)
qed

theorem update_user_unknown_key_no_mutation_witness:
  "UserAPIHandler_patch
     (sample_request\<lparr>json_body := JDict [(''admin'', JBool True), (''shell'', JStr ''zsh'')]\<rparr>)
     ''alice'' sample_hub
   = (Inl (HTTPError 400
            (InvalidJSONKeys (JDict [(''admin'', JBool True), (''shell'', JStr ''zsh'')]))),
      sample_hub)"
  using update_user_unknown_key_no_mutation
    [of "sample_request\<lparr>json_body := JDict [(''admin'', JBool True), (''shell'', JStr ''zsh'')]\<rparr>"
      root_user "''alice''" sample_hub 1
      "[(''admin'', JBool True), (''shell'', JStr ''zsh'')]" "''shell''" "JStr ''zsh''"]
  by (simp add: sample_defs find_user_def)

end
